theory Spec2Isabelle
  imports Main
begin

section \<open>Data model\<close>

text \<open>
  The tables of the drizzle schema (\<^verbatim>\<open>mysqlTable\<close> declarations) as records, one list
  of rows per table. Identifiers, names and e-mail addresses are \<^verbatim>\<open>varchar\<close> columns and
  are strings here; \<^verbatim>\<open>decimal(10, 2)\<close> columns are amounts counted in hundredths
  (\<open>2550\<close> is 25.50), so that \<^verbatim>\<open>Number(...)\<close> on read is the identity; timestamps are
  integers. The enum columns \<^verbatim>\<open>role\<close> and \<^verbatim>\<open>status\<close> are datatypes.
\<close>

datatype role = Superadmin | Admin | Seller | Waiter

datatype sale_status = Paid | Pending

type_synonym money = int

record restaurant =
  restaurant_id :: string
  restaurant_name :: string
  restaurant_address :: string
  restaurant_phone :: string

record user =
  user_id :: string
  user_name :: string
  user_email :: string
  user_password :: string
  user_role :: role
  user_restaurantId :: string

record category =
  category_id :: string
  category_name :: string
  category_restaurantId :: string

record product =
  product_id :: string
  product_name :: string
  product_price :: money
  product_category :: string
  product_restaurantId :: string

record customer =
  customer_id :: string
  customer_name :: string
  customer_email :: string
  customer_phone :: string
  customer_restaurantId :: string

record purchase =
  purchase_id :: string
  purchase_productName :: string
  purchase_supplier :: "string option"
  purchase_quantity :: int
  purchase_unitPrice :: money
  purchase_purchaseDate :: int
  purchase_restaurantId :: string

text \<open>
  An order item as the dashboard reads it (\<^verbatim>\<open>item.id\<close>, \<^verbatim>\<open>item.name\<close>,
  \<^verbatim>\<open>item.price\<close>, \<^verbatim>\<open>item.quantity\<close>); the \<^verbatim>\<open>items\<close> column of a sale is a JSON
  list of them.
\<close>

record order_item =
  item_id :: string
  item_name :: string
  item_price :: money
  item_quantity :: int

record sale =
  sale_id :: string
  sale_customerName :: string
  sale_tableNumber :: string
  sale_items :: "order_item list"
  sale_totalPrice :: money
  sale_saleDate :: int
  sale_userId :: string
  sale_userName :: string
  sale_restaurantId :: string
  sale_status :: sale_status

record db =
  restaurants :: "restaurant list"
  users :: "user list"
  products :: "product list"
  categories :: "category list"
  customers :: "customer list"
  purchases :: "purchase list"
  sales :: "sale list"

text \<open>
  The columns are compared as strings: \<^verbatim>\<open>eq(users.email, e)\<close> and \<^verbatim>\<open>eq(users.id, i)\<close>
  are equality of strings, as \<^verbatim>\<open>id === currentUserId\<close> and \<^verbatim>\<open>restaurantId === 'all'\<close>
  are.

  Every \<^verbatim>\<open>throw new Error(...)\<close> of the server actions is a constructor, named after its
  message (the messages are Spanish; their accents are left out here):
  \<^item> \<open>EmailInUse\<close>: \<^verbatim>\<open>El correo electronico ya esta en uso ...\<close> of \<open>createRestaurant\<close>
    and \<open>addUser\<close>;
  \<^item> \<open>EmailRegisteredByOther\<close>: \<^verbatim>\<open>... ya esta registrado por otro usuario.\<close> of
    \<open>updateRestaurant\<close>;
  \<^item> \<open>EmailInUseByOther\<close>: \<^verbatim>\<open>... ya esta en uso por otro usuario en el sistema.\<close> of
    \<open>updateUser\<close>;
  \<^item> \<open>CannotDeleteSelf\<close>: \<^verbatim>\<open>No puedes eliminar tu propia cuenta de usuario.\<close>
  \<^item> \<open>UserNotFound\<close>: \<^verbatim>\<open>El usuario que intentas eliminar no existe.\<close>
  \<^item> \<open>LastSuperadmin\<close>: \<^verbatim>\<open>No se puede eliminar al unico superadministrador del sistema.\<close>
  \<^item> \<open>NoPermissionAdmin\<close>: \<^verbatim>\<open>No tienes permisos para eliminar a un administrador.\<close>
  \<^item> \<open>LastUserOfRestaurant\<close>: \<^verbatim>\<open>No se puede eliminar al unico usuario de un restaurante.\<close>
  \<^item> \<open>NoPermission\<close>: \<^verbatim>\<open>No tienes permisos para eliminar usuarios.\<close>

  \<open>NoValuesToSet\<close> is the error that \<^verbatim>\<open>update(...).set(values)\<close> of drizzle throws,
  before any statement reaches the database, when \<^verbatim>\<open>values\<close> has no field.

  The last three constructors are the rejections of the database itself for the
  constraints the schema declares: the primary keys, \<^verbatim>\<open>unique()\<close> on \<^verbatim>\<open>users.email\<close>
  and \<^verbatim>\<open>references(() => restaurants.id)\<close>.
\<close>

datatype error =
    EmailInUse
  | EmailRegisteredByOther
  | EmailInUseByOther
  | CannotDeleteSelf
  | UserNotFound
  | LastSuperadmin
  | NoPermissionAdmin
  | LastUserOfRestaurant
  | NoPermission
  | NoValuesToSet
  | DbDuplicateId
  | DbDuplicateEmail
  | DbForeignKey

section \<open>Queries and writes on the users and restaurants tables\<close>

definition restaurant_ids :: "db \<Rightarrow> string list" where
  "restaurant_ids d = map restaurant_id (restaurants d)"

definition findUserById :: "db \<Rightarrow> string \<Rightarrow> user option" where
  \<comment> \<open>\<^verbatim>\<open>db.query.users.findFirst({ where: eq(users.id, id) })\<close>\<close>
  "findUserById d i = find (\<lambda>u. user_id u = i) (users d)"

definition countUsersByEmail :: "db \<Rightarrow> string \<Rightarrow> nat" where
  \<comment> \<open>\<^verbatim>\<open>select({ value: count() }).from(users).where(eq(users.email, e))\<close>\<close>
  "countUsersByEmail d e = length (filter (\<lambda>u. user_email u = e) (users d))"

definition countUsersByRole :: "db \<Rightarrow> role \<Rightarrow> nat" where
  "countUsersByRole d r = length (filter (\<lambda>u. user_role u = r) (users d))"

definition countUsersByRestaurant :: "db \<Rightarrow> string \<Rightarrow> nat" where
  "countUsersByRestaurant d r = length (filter (\<lambda>u. user_restaurantId u = r) (users d))"

definition otherUserWithEmail :: "db \<Rightarrow> string \<Rightarrow> string \<Rightarrow> bool" where
  \<comment> \<open>\<^verbatim>\<open>findFirst({ where: and(eq(users.email, e), not(eq(users.id, i))) })\<close> is defined\<close>
  "otherUserWithEmail d e i = list_ex (\<lambda>u. user_email u = e \<and> user_id u \<noteq> i) (users d)"

definition delete_user_rows :: "db \<Rightarrow> string \<Rightarrow> db" where
  \<comment> \<open>\<^verbatim>\<open>db.delete(users).where(eq(users.id, id))\<close>; no table references \<^verbatim>\<open>users\<close>\<close>
  "delete_user_rows d i = d\<lparr>users := filter (\<lambda>u. user_id u \<noteq> i) (users d)\<rparr>"

text \<open>
  The constraints the schema puts on the two tables: primary keys, the unique e-mail and
  the reference from a user to its restaurant. The database keeps them; the writes below
  fail where one would break.
\<close>

definition db_constraints :: "db \<Rightarrow> bool" where
  "db_constraints d =
    (distinct (map restaurant_id (restaurants d))
     \<and> distinct (map user_id (users d))
     \<and> distinct (map user_email (users d))
     \<and> list_all (\<lambda>u. user_restaurantId u \<in> set (restaurant_ids d)) (users d))"

definition insert_restaurant :: "db \<Rightarrow> restaurant \<Rightarrow> error + db" where
  \<comment> \<open>\<^verbatim>\<open>insert(restaurants).values(r)\<close>\<close>
  "insert_restaurant d r =
    (if restaurant_id r \<in> set (restaurant_ids d) then Inl DbDuplicateId
     else Inr (d\<lparr>restaurants := restaurants d @ [r]\<rparr>))"

definition insert_user :: "db \<Rightarrow> user \<Rightarrow> error + db" where
  \<comment> \<open>\<^verbatim>\<open>insert(users).values(u)\<close>\<close>
  "insert_user d u =
    (if user_id u \<in> set (map user_id (users d)) then Inl DbDuplicateId
     else if user_email u \<in> set (map user_email (users d)) then Inl DbDuplicateEmail
     else if user_restaurantId u \<notin> set (restaurant_ids d) then Inl DbForeignKey
     else Inr (d\<lparr>users := users d @ [u]\<rparr>))"

text \<open>
  \<^verbatim>\<open>Partial<Omit<User, 'id'>>\<close>: each field is there or not. \<^verbatim>\<open>set(userData)\<close> writes the
  fields that are there and keeps the others; it throws when none is there.
\<close>

record user_fields =
  f_name :: "string option"
  f_email :: "string option"
  f_password :: "string option"
  f_role :: "role option"
  f_restaurantId :: "string option"

definition set_user_fields :: "user_fields \<Rightarrow> user \<Rightarrow> user" where
  "set_user_fields f u =
    u\<lparr>user_name := (case f_name f of None \<Rightarrow> user_name u | Some v \<Rightarrow> v),
      user_email := (case f_email f of None \<Rightarrow> user_email u | Some v \<Rightarrow> v),
      user_password := (case f_password f of None \<Rightarrow> user_password u | Some v \<Rightarrow> v),
      user_role := (case f_role f of None \<Rightarrow> user_role u | Some v \<Rightarrow> v),
      user_restaurantId :=
        (case f_restaurantId f of None \<Rightarrow> user_restaurantId u | Some v \<Rightarrow> v)\<rparr>"

definition user_fields_empty :: "user_fields \<Rightarrow> bool" where
  "user_fields_empty f =
    (f_name f = None \<and> f_email f = None \<and> f_password f = None \<and> f_role f = None
     \<and> f_restaurantId f = None)"

definition update_user_rows :: "db \<Rightarrow> string \<Rightarrow> user_fields \<Rightarrow> error + db" where
  \<comment> \<open>\<^verbatim>\<open>update(users).set(f).where(eq(users.id, i))\<close>: \<^verbatim>\<open>set\<close> throws when no field is
      supplied; with no matching row nothing is written and nothing is checked\<close>
  "update_user_rows d i f =
    (if user_fields_empty f then Inl NoValuesToSet
     else if findUserById d i = None then Inr d
     else if (case f_email f of None \<Rightarrow> False | Some e \<Rightarrow> otherUserWithEmail d e i)
       then Inl DbDuplicateEmail
     else if (case f_restaurantId f of None \<Rightarrow> False | Some r \<Rightarrow> r \<notin> set (restaurant_ids d))
       then Inl DbForeignKey
     else Inr (d\<lparr>users := map (\<lambda>u. if user_id u = i then set_user_fields f u else u) (users d)\<rparr>))"

record restaurant_fields =
  rf_name :: "string option"
  rf_address :: "string option"
  rf_phone :: "string option"

definition set_restaurant_fields :: "restaurant_fields \<Rightarrow> restaurant \<Rightarrow> restaurant" where
  "set_restaurant_fields f r =
    r\<lparr>restaurant_name := (case rf_name f of None \<Rightarrow> restaurant_name r | Some v \<Rightarrow> v),
      restaurant_address := (case rf_address f of None \<Rightarrow> restaurant_address r | Some v \<Rightarrow> v),
      restaurant_phone := (case rf_phone f of None \<Rightarrow> restaurant_phone r | Some v \<Rightarrow> v)\<rparr>"

definition has_keys :: "restaurant_fields \<Rightarrow> bool" where
  \<comment> \<open>\<^verbatim>\<open>Object.keys(restaurantData).length > 0\<close>\<close>
  "has_keys f = (\<not> (rf_name f = None \<and> rf_address f = None \<and> rf_phone f = None))"

definition update_restaurant_rows :: "db \<Rightarrow> string \<Rightarrow> restaurant_fields \<Rightarrow> db" where
  "update_restaurant_rows d i f =
    d\<lparr>restaurants :=
        map (\<lambda>r. if restaurant_id r = i then set_restaurant_fields f r else r) (restaurants d)\<rparr>"

definition findRestaurantWithUsers :: "db \<Rightarrow> string \<Rightarrow> (restaurant \<times> user list) option" where
  \<comment> \<open>\<^verbatim>\<open>restaurants.findFirst({ where: eq(restaurants.id, i), with: { users: true } })\<close>\<close>
  "findRestaurantWithUsers d i =
    map_option (\<lambda>r. (r, filter (\<lambda>u. user_restaurantId u = i) (users d)))
      (find (\<lambda>r. restaurant_id r = i) (restaurants d))"

section \<open>Restaurant actions\<close>

text \<open>
  \<open>createRestaurant\<close> takes the two identifiers that \<^verbatim>\<open>crypto.randomUUID()\<close> returns as
  arguments. \<^verbatim>\<open>adminData\<close> is a user whose \<^verbatim>\<open>id\<close>, \<^verbatim>\<open>role\<close> and \<^verbatim>\<open>restaurantId\<close>
  the object spread overwrites, \<^verbatim>\<open>restaurantData\<close> a restaurant whose \<^verbatim>\<open>id\<close> it
  overwrites. The e-mail test and the count of restaurants come before the transaction;
  an error inside the transaction rolls both inserts back.
\<close>

definition createRestaurant ::
  "db \<Rightarrow> restaurant \<Rightarrow> user \<Rightarrow> string \<Rightarrow> string \<Rightarrow> (error + string) \<times> db" where
  "createRestaurant d restaurantData adminData restaurantId userId =
    (if countUsersByEmail d (user_email adminData) > 0 then (Inl EmailInUse, d)
     else
       let isFirstRestaurant = (length (restaurants d) = 0) in
       case insert_restaurant d (restaurantData\<lparr>restaurant_id := restaurantId\<rparr>) of
         Inl e \<Rightarrow> (Inl e, d)
       | Inr d1 \<Rightarrow>
           (case insert_user d1
               (adminData\<lparr>user_id := userId,
                  user_role := (if isFirstRestaurant then Superadmin else Admin),
                  user_restaurantId := restaurantId\<rparr>) of
              Inl e \<Rightarrow> (Inl e, d)
            | Inr d2 \<Rightarrow> (Inr restaurantId, d2)))"

text \<open>
  \<^verbatim>\<open>adminData?: {id: string, email: string, password?: string}\<close> of \<open>updateRestaurant\<close>.
  An empty \<^verbatim>\<open>id\<close> is falsy and skips the administrator's part; a password is written
  only when it is there and has at least six characters.
\<close>

record admin_update =
  au_id :: string
  au_email :: string
  au_password :: "string option"

definition admin_update_fields :: "admin_update \<Rightarrow> user_fields" where
  "admin_update_fields a =
    \<lparr>f_name = None, f_email = Some (au_email a),
     f_password =
       (case au_password a of
          None \<Rightarrow> None
        | Some p \<Rightarrow> if p \<noteq> [] \<and> length p \<ge> 6 then Some p else None),
     f_role = None, f_restaurantId = None\<rparr>"

definition updateRestaurant ::
  "db \<Rightarrow> string \<Rightarrow> restaurant_fields \<Rightarrow> admin_update option
    \<Rightarrow> (error + (restaurant \<times> user list) option) \<times> db" where
  "updateRestaurant d i restaurantData adminData =
    (let d1 = (if has_keys restaurantData then update_restaurant_rows d i restaurantData else d) in
     case adminData of
       None \<Rightarrow> (Inr (findRestaurantWithUsers d1 i), d1)
     | Some a \<Rightarrow>
         if au_id a = [] then (Inr (findRestaurantWithUsers d1 i), d1)
         else if otherUserWithEmail d1 (au_email a) (au_id a)
           then (Inl EmailRegisteredByOther, d)
         else
           (case update_user_rows d1 (au_id a) (admin_update_fields a) of
              Inl e \<Rightarrow> (Inl e, d)
            | Inr d2 \<Rightarrow> (Inr (findRestaurantWithUsers d2 i), d2)))"

section \<open>User actions\<close>

text \<open>
  \<open>addUser\<close>: \<^verbatim>\<open>userData\<close> is a user whose \<^verbatim>\<open>id\<close> the spread overwrites with the new
  identifier.
\<close>

definition addUser :: "db \<Rightarrow> user \<Rightarrow> string \<Rightarrow> (error + user) \<times> db" where
  "addUser d userData userId =
    (if countUsersByEmail d (user_email userData) > 0 then (Inl EmailInUse, d)
     else
       let newUser = userData\<lparr>user_id := userId\<rparr> in
       case insert_user d newUser of
         Inl e \<Rightarrow> (Inl e, d)
       | Inr d1 \<Rightarrow> (Inr newUser, d1))"

text \<open>
  \<open>updateUser\<close>: \<^verbatim>\<open>if (userData.email)\<close> holds for an e-mail that is there and not the
  empty string. The result is the row read back, \<^verbatim>\<open>undefined\<close> (here \<open>None\<close>) when no
  user has the identifier.
\<close>

definition updateUser :: "db \<Rightarrow> string \<Rightarrow> user_fields \<Rightarrow> (error + user option) \<times> db" where
  "updateUser d i userData =
    (if (case f_email userData of
           None \<Rightarrow> False
         | Some e \<Rightarrow> e \<noteq> [] \<and> otherUserWithEmail d e i)
     then (Inl EmailInUseByOther, d)
     else
       case update_user_rows d i userData of
         Inl e \<Rightarrow> (Inl e, d)
       | Inr d1 \<Rightarrow> (Inr (findUserById d1 i), d1))"

definition deleteUser :: "db \<Rightarrow> string \<Rightarrow> string \<Rightarrow> (error + unit) \<times> db" where
  "deleteUser d i currentUserId =
    (if i = currentUserId then (Inl CannotDeleteSelf, d)
     else
       case findUserById d i of
         None \<Rightarrow> (Inl UserNotFound, d)
       | Some userToDelete \<Rightarrow>
           let currentUser = findUserById d currentUserId in
           if map_option user_role currentUser = Some Superadmin then
             if user_role userToDelete = Superadmin \<and> countUsersByRole d Superadmin \<le> 1
             then (Inl LastSuperadmin, d)
             else (Inr (), delete_user_rows d i)
           else if map_option user_role currentUser = Some Admin then
             if user_role userToDelete = Admin \<or> user_role userToDelete = Superadmin
             then (Inl NoPermissionAdmin, d)
             else if countUsersByRestaurant d (user_restaurantId userToDelete) \<le> 1
             then (Inl LastUserOfRestaurant, d)
             else (Inr (), delete_user_rows d i)
           else (Inl NoPermission, d))"

section \<open>Catalog and sales actions\<close>

text \<open>
  The five list actions take the scope and nothing else. \<^verbatim>\<open>Number(p.unitPrice)\<close> and
  \<^verbatim>\<open>Number(s.totalPrice)\<close> are the identity on amounts in hundredths, and the cast of
  \<^verbatim>\<open>items\<close> changes nothing.
\<close>

definition getProductsForRestaurant :: "db \<Rightarrow> string \<Rightarrow> product list" where
  "getProductsForRestaurant d restaurantId =
    (if restaurantId = ''all'' then products d
     else filter (\<lambda>p. product_restaurantId p = restaurantId) (products d))"

definition getCategoriesForRestaurant :: "db \<Rightarrow> string \<Rightarrow> category list" where
  "getCategoriesForRestaurant d restaurantId =
    (if restaurantId = ''all'' then categories d
     else filter (\<lambda>c. category_restaurantId c = restaurantId) (categories d))"

definition getCustomersForRestaurant :: "db \<Rightarrow> string \<Rightarrow> customer list" where
  "getCustomersForRestaurant d restaurantId =
    (if restaurantId = ''all'' then customers d
     else filter (\<lambda>c. customer_restaurantId c = restaurantId) (customers d))"

definition getPurchasesForRestaurant :: "db \<Rightarrow> string \<Rightarrow> purchase list" where
  "getPurchasesForRestaurant d restaurantId =
    (if restaurantId = ''all'' then map (\<lambda>p. p\<lparr>purchase_unitPrice := purchase_unitPrice p\<rparr>) (purchases d)
     else map (\<lambda>p. p\<lparr>purchase_unitPrice := purchase_unitPrice p\<rparr>)
       (filter (\<lambda>p. purchase_restaurantId p = restaurantId) (purchases d)))"

definition getSalesForRestaurant :: "db \<Rightarrow> string \<Rightarrow> sale list" where
  "getSalesForRestaurant d restaurantId =
    (let allSales =
       (if restaurantId = ''all'' then sales d
        else filter (\<lambda>s. sale_restaurantId s = restaurantId) (sales d))
     in map (\<lambda>s. s\<lparr>sale_items := sale_items s, sale_totalPrice := sale_totalPrice s\<rparr>) allSales)"

definition getSaleById :: "db \<Rightarrow> string \<Rightarrow> sale option" where
  "getSaleById d i = find (\<lambda>s. sale_id s = i) (sales d)"

definition insert_sale :: "db \<Rightarrow> sale \<Rightarrow> error + db" where
  \<comment> \<open>\<^verbatim>\<open>insert(sales).values(s)\<close>: primary key, reference to the restaurant\<close>
  "insert_sale d s =
    (if sale_id s \<in> set (map sale_id (sales d)) then Inl DbDuplicateId
     else if sale_restaurantId s \<notin> set (restaurant_ids d) then Inl DbForeignKey
     else Inr (d\<lparr>sales := sales d @ [s]\<rparr>))"

definition addSale :: "db \<Rightarrow> sale \<Rightarrow> string \<Rightarrow> (error + sale) \<times> db" where
  "addSale d sale saleId =
    (let newSale = sale\<lparr>sale_id := saleId\<rparr> in
     case insert_sale d newSale of
       Inl e \<Rightarrow> (Inl e, d)
     | Inr d1 \<Rightarrow> (Inr newSale, d1))"

text \<open>
  The amount of a list of order items, \<^verbatim>\<open>Number(item.price) * item.quantity\<close> summed
  as the reports page sums it.
\<close>

definition items_total :: "order_item list \<Rightarrow> money" where
  "items_total items = sum_list (map (\<lambda>i. item_price i * item_quantity i) items)"

text \<open>
  \<^verbatim>\<open>Partial<Omit<Product, 'id' | 'restaurantId'>>\<close> of \<open>updateProduct\<close>: the type has no
  \<^verbatim>\<open>restaurantId\<close>.
\<close>

record product_fields =
  pf_name :: "string option"
  pf_price :: "money option"
  pf_category :: "string option"

definition set_product_fields :: "product_fields \<Rightarrow> product \<Rightarrow> product" where
  "set_product_fields f p =
    p\<lparr>product_name := (case pf_name f of None \<Rightarrow> product_name p | Some v \<Rightarrow> v),
      product_price := (case pf_price f of None \<Rightarrow> product_price p | Some v \<Rightarrow> v),
      product_category := (case pf_category f of None \<Rightarrow> product_category p | Some v \<Rightarrow> v)\<rparr>"

definition updateProduct ::
  "db \<Rightarrow> string \<Rightarrow> product_fields \<Rightarrow> (error + product option) \<times> db" where
  "updateProduct d i f =
    (if pf_name f = None \<and> pf_price f = None \<and> pf_category f = None
     then (Inl NoValuesToSet, d)
     else
       let d1 = d\<lparr>products :=
                   map (\<lambda>p. if product_id p = i then set_product_fields f p else p) (products d)\<rparr>
       in (Inr (find (\<lambda>p. product_id p = i) (products d1)), d1))"

section \<open>Login\<close>

text \<open>
  \<open>onSubmit\<close> of the login form, on the e-mail and password the form has validated. It
  reads every restaurant with its users, compares the password typed with the password
  stored, and stores the user and the scope in the session: \<^verbatim>\<open>'all'\<close> for a superadmin,
  the restaurant's identifier for anyone else. The first branch is the recovery access.
  The result is what the two \<^verbatim>\<open>sessionStorage.setItem\<close> calls store, \<open>None\<close> when the
  login is refused; the notifications and the redirection are left out.
\<close>

definition getAllRestaurantsWithUsers :: "db \<Rightarrow> (restaurant \<times> user list) list" where
  "getAllRestaurantsWithUsers d =
    map (\<lambda>r. (r, filter (\<lambda>u. user_restaurantId u = restaurant_id r) (users d))) (restaurants d)"

fun findSuperAdminUser :: "(restaurant \<times> user list) list \<Rightarrow> user option" where
  "findSuperAdminUser [] = None"
| "findSuperAdminUser ((r, us) # rest) =
    (case find (\<lambda>u. user_role u = Superadmin) us of
       Some found \<Rightarrow> Some found
     | None \<Rightarrow> findSuperAdminUser rest)"

fun findLoggedInUser ::
  "(restaurant \<times> user list) list \<Rightarrow> string \<Rightarrow> string \<Rightarrow> (user \<times> restaurant) option" where
  "findLoggedInUser [] e p = None"
| "findLoggedInUser ((r, us) # rest) e p =
    (case find (\<lambda>u. user_email u = e) us of
       Some foundUser \<Rightarrow>
         if user_password foundUser = p then Some (foundUser, r)
         else findLoggedInUser rest e p
     | None \<Rightarrow> findLoggedInUser rest e p)"

record session =
  loggedInUser :: user
  activeRestaurantId :: string

definition onSubmit :: "db \<Rightarrow> string \<Rightarrow> string \<Rightarrow> session option" where
  "onSubmit d e p =
    (if e = ''superadmin@example.com'' \<and> p = ''password123'' then
       (case findSuperAdminUser (getAllRestaurantsWithUsers d) of
          Some superAdminUser \<Rightarrow>
            Some \<lparr>loggedInUser = superAdminUser, activeRestaurantId = ''all''\<rparr>
        | None \<Rightarrow> None)
     else
       (case findLoggedInUser (getAllRestaurantsWithUsers d) e p of
          Some (u, restaurantForUser) \<Rightarrow>
            Some \<lparr>loggedInUser = u,
                  activeRestaurantId =
                    (if user_role u = Superadmin then ''all''
                     else restaurant_id restaurantForUser)\<rparr>
        | None \<Rightarrow> None))"

section \<open>Example states\<close>

definition rest_A :: restaurant where
  "rest_A = \<lparr>restaurant_id = ''rA'', restaurant_name = ''A'',
             restaurant_address = ''Calle 1'', restaurant_phone = ''111''\<rparr>"

definition rest_B :: restaurant where
  "rest_B = \<lparr>restaurant_id = ''rB'', restaurant_name = ''B'',
             restaurant_address = ''Calle 2'', restaurant_phone = ''222''\<rparr>"

definition rest_C :: restaurant where
  "rest_C = \<lparr>restaurant_id = ''rC'', restaurant_name = ''C'',
             restaurant_address = ''Calle 3'', restaurant_phone = ''333''\<rparr>"

definition user_root :: user where
  "user_root = \<lparr>user_id = ''u0'', user_name = ''Root'', user_email = ''root@a.es'',
                user_password = ''rootpass'', user_role = Superadmin, user_restaurantId = ''rA''\<rparr>"

definition user_adminB :: user where
  "user_adminB = \<lparr>user_id = ''u1'', user_name = ''Berta'', user_email = ''berta@b.es'',
                  user_password = ''bertapass'', user_role = Admin, user_restaurantId = ''rB''\<rparr>"

definition user_sellerB :: user where
  "user_sellerB = \<lparr>user_id = ''u2'', user_name = ''Saul'', user_email = ''saul@b.es'',
                   user_password = ''saulpass'', user_role = Seller, user_restaurantId = ''rB''\<rparr>"

definition user_adminA :: user where
  "user_adminA = \<lparr>user_id = ''u3'', user_name = ''Ana'', user_email = ''ana@a.es'',
                  user_password = ''anapass1'', user_role = Admin, user_restaurantId = ''rA''\<rparr>"

definition user_adminC :: user where
  "user_adminC = \<lparr>user_id = ''u4'', user_name = ''Carla'', user_email = ''carla@c.es'',
                  user_password = ''carlapass'', user_role = Admin, user_restaurantId = ''rC''\<rparr>"

definition prod_A :: product where
  "prod_A = \<lparr>product_id = ''p1'', product_name = ''Paella'', product_price = 1000,
             product_category = ''Arroces'', product_restaurantId = ''rA''\<rparr>"

definition prod_B :: product where
  "prod_B = \<lparr>product_id = ''p2'', product_name = ''Agua'', product_price = 550,
             product_category = ''Bebidas'', product_restaurantId = ''rB''\<rparr>"

definition sale_A :: sale where
  "sale_A = \<lparr>sale_id = ''s1'', sale_customerName = ''Luis'', sale_tableNumber = ''4'',
             sale_items = [\<lparr>item_id = ''p1'', item_name = ''Paella'', item_price = 1000,
                            item_quantity = 1\<rparr>],
             sale_totalPrice = 1000, sale_saleDate = 0, sale_userId = ''u3'',
             sale_userName = ''Ana'', sale_restaurantId = ''rA'', sale_status = Paid\<rparr>"

definition sale_new :: sale where
  "sale_new = \<lparr>sale_id = [], sale_customerName = ''Eva'', sale_tableNumber = ''7'',
               sale_items = [\<lparr>item_id = ''p1'', item_name = ''Paella'', item_price = 1000,
                              item_quantity = 2\<rparr>,
                             \<lparr>item_id = ''p2'', item_name = ''Agua'', item_price = 550,
                              item_quantity = 1\<rparr>],
               sale_totalPrice = 9900, sale_saleDate = 1, sale_userId = ''u2'',
               sale_userName = ''Saul'', sale_restaurantId = ''rB'', sale_status = Pending\<rparr>"

definition db_empty :: db where
  "db_empty = \<lparr>restaurants = [], users = [], products = [], categories = [],
               customers = [], purchases = [], sales = []\<rparr>"

definition db_demo :: db where
  "db_demo = \<lparr>restaurants = [rest_A, rest_B, rest_C],
              users = [user_root, user_adminB, user_sellerB, user_adminA, user_adminC],
              products = [prod_A, prod_B], categories = [],
              customers = [], purchases = [], sales = [sale_A]\<rparr>"

definition rest_form :: restaurant where
  "rest_form = \<lparr>restaurant_id = [], restaurant_name = ''La Hoja Verde'',
                restaurant_address = ''Calle Principal 123'', restaurant_phone = ''1234567''\<rparr>"

definition admin_form :: user where
  "admin_form = \<lparr>user_id = [], user_name = ''Dora'', user_email = ''dora@d.es'',
                 user_password = ''dorapass'', user_role = Waiter, user_restaurantId = []\<rparr>"

definition no_restaurant_fields :: restaurant_fields where
  "no_restaurant_fields = \<lparr>rf_name = None, rf_address = None, rf_phone = None\<rparr>"

definition no_user_fields :: user_fields where
  "no_user_fields = \<lparr>f_name = None, f_email = None, f_password = None, f_role = None,
                      f_restaurantId = None\<rparr>"

section \<open>Facts about the queries\<close>

lemmas example_defs =
  rest_A_def rest_B_def rest_C_def user_root_def user_adminB_def user_sellerB_def
  user_adminA_def user_adminC_def prod_A_def prod_B_def sale_A_def sale_new_def
  db_empty_def db_demo_def no_user_fields_def rest_form_def admin_form_def
  no_restaurant_fields_def

lemmas user_query_defs =
  findUserById_def countUsersByEmail_def countUsersByRole_def countUsersByRestaurant_def
  otherUserWithEmail_def delete_user_rows_def restaurant_ids_def

lemma find_snoc:
  "find P (xs @ [y]) = (case find P xs of Some x \<Rightarrow> Some x | None \<Rightarrow> if P y then Some y else None)"
  by (induction xs) simp_all

lemma findUserById_Some:
  assumes "findUserById d i = Some t"
  shows "t \<in> set (users d)" and "user_id t = i"
  using assms by (auto simp: findUserById_def find_Some_iff)

lemma countUsersByEmail_pos:
  "e \<in> set (map user_email (users d)) \<Longrightarrow> 0 < countUsersByEmail d e"
  by (auto simp: countUsersByEmail_def filter_empty_conv)

lemma findUserById_deleted: "findUserById (delete_user_rows d i) i = None"
  by (simp add: findUserById_def delete_user_rows_def find_None_iff)

lemma last_user_of_restaurant_removed:
  assumes found: "findUserById d i = Some t"
    and one: "countUsersByRestaurant d (user_restaurantId t) \<le> 1"
  shows "countUsersByRestaurant (delete_user_rows d i) (user_restaurantId t) = 0"
proof -
  let ?same = "filter (\<lambda>u. user_restaurantId u = user_restaurantId t) (users d)"
  have t_in: "t \<in> set ?same"
    using findUserById_Some(1) [OF found] by simp
  from one have "length ?same \<le> 1"
    by (simp add: countUsersByRestaurant_def)
  with t_in have only: "?same = [t]"
    by (cases ?same) auto
  have "user_id u = i" if "u \<in> set (users d)" "user_restaurantId u = user_restaurantId t" for u
  proof -
    from that have "u \<in> set ?same" by simp
    with only have "u = t" by simp
    then show ?thesis using findUserById_Some(2) [OF found] by simp
  qed
  then show ?thesis
    by (auto simp: countUsersByRestaurant_def delete_user_rows_def filter_empty_conv)
qed

section \<open>Deleting users\<close>

text \<open>
  C1. Whoever calls it, \<open>deleteUser\<close> on a target that has role superadmin while at most
  one user has that role fails, and leaves the database as it was; in particular the rows
  with role superadmin, and their number, are the same after the call as before it.
\<close>

theorem deleteUser_sole_superadmin_denied:
  assumes "findUserById d i = Some t"
    and "user_role t = Superadmin"
    and "countUsersByRole d Superadmin \<le> 1"
  shows "isl (fst (deleteUser d i cur))
    \<and> snd (deleteUser d i cur) = d
    \<and> filter (\<lambda>u. user_role u = Superadmin) (users (snd (deleteUser d i cur)))
        = filter (\<lambda>u. user_role u = Superadmin) (users d)
    \<and> countUsersByRole (snd (deleteUser d i cur)) Superadmin = countUsersByRole d Superadmin"
proof -
  have unchanged: "snd (deleteUser d i cur) = d" and failed: "isl (fst (deleteUser d i cur))"
    using assms by (auto simp: deleteUser_def Let_def)
  from failed unchanged show ?thesis by simp
qed

theorem deleteUser_sole_superadmin_denied_witness:
  "findUserById db_demo ''u0'' = Some user_root
   \<and> user_role user_root = Superadmin
   \<and> countUsersByRole db_demo Superadmin \<le> 1
   \<and> deleteUser db_demo ''u0'' ''u3'' = (Inl NoPermissionAdmin, db_demo)
   \<and> countUsersByRole (snd (deleteUser db_demo ''u0'' ''u3'')) Superadmin = 1"
proof -
  have found: "findUserById db_demo ''u0'' = Some user_root"
    by (simp add: example_defs user_query_defs)
  have su: "user_role user_root = Superadmin"
    by (simp add: example_defs)
  have one: "countUsersByRole db_demo Superadmin \<le> 1"
    by (simp add: example_defs user_query_defs)
  have run: "deleteUser db_demo ''u0'' ''u3'' = (Inl NoPermissionAdmin, db_demo)"
    by (simp add: deleteUser_def Let_def example_defs user_query_defs)
  have cnt: "countUsersByRole db_demo Superadmin = 1"
    by (simp add: example_defs user_query_defs)
  from deleteUser_sole_superadmin_denied [OF found su one, of "''u3''"] found su one run cnt
  show ?thesis by simp
qed

text \<open>
  C4, as the claim states it, fails: an admin of restaurant \<open>rA\<close> deletes a seller of
  restaurant \<open>rB\<close>, which has two users.
\<close>

theorem deleteUser_admin_other_restaurant_counterexample:
  "findUserById db_demo ''u3'' = Some user_adminA
   \<and> user_role user_adminA = Admin
   \<and> findUserById db_demo ''u2'' = Some user_sellerB
   \<and> user_restaurantId user_sellerB \<noteq> user_restaurantId user_adminA
   \<and> fst (deleteUser db_demo ''u2'' ''u3'') = Inr ()
   \<and> findUserById (snd (deleteUser db_demo ''u2'' ''u3'')) ''u2'' = None"
  by (simp add: deleteUser_def Let_def example_defs user_query_defs)

text \<open>
  C4, amended. When the acting user has role admin, \<open>deleteUser\<close> succeeds exactly when
  the target is another, existing user with role seller or waiter whose restaurant has
  more than one user; it then removes the target's row. A target with role admin or
  superadmin is denied and nothing is written. The target's restaurant is not compared
  with the acting admin's.
\<close>

theorem deleteUser_by_admin:
  assumes "findUserById d cur = Some a"
    and "user_role a = Admin"
  shows "(fst (deleteUser d i cur) = Inr ()) =
      (i \<noteq> cur \<and> (\<exists>t. findUserById d i = Some t
          \<and> (user_role t = Seller \<or> user_role t = Waiter)
          \<and> 1 < countUsersByRestaurant d (user_restaurantId t)))
    \<and> (fst (deleteUser d i cur) = Inr () \<longrightarrow> snd (deleteUser d i cur) = delete_user_rows d i)
    \<and> (\<forall>t. findUserById d i = Some t \<and> (user_role t = Admin \<or> user_role t = Superadmin)
          \<longrightarrow> isl (fst (deleteUser d i cur)) \<and> snd (deleteUser d i cur) = d)"
proof (cases "findUserById d i")
  case None
  with assms show ?thesis by (simp add: deleteUser_def)
next
  case (Some t)
  with assms show ?thesis
    by (cases "user_role t") (auto simp: deleteUser_def Let_def)
qed

theorem deleteUser_by_admin_witness:
  "findUserById db_demo ''u1'' = Some user_adminB
   \<and> user_role user_adminB = Admin
   \<and> deleteUser db_demo ''u2'' ''u1'' = (Inr (), delete_user_rows db_demo ''u2'')
   \<and> map user_id (users (snd (deleteUser db_demo ''u2'' ''u1''))) = [''u0'', ''u1'', ''u3'', ''u4'']
   \<and> deleteUser db_demo ''u3'' ''u1'' = (Inl NoPermissionAdmin, db_demo)
   \<and> deleteUser db_demo ''u0'' ''u1'' = (Inl NoPermissionAdmin, db_demo)"
proof -
  have actor: "findUserById db_demo ''u1'' = Some user_adminB"
    by (simp add: example_defs user_query_defs)
  have adm: "user_role user_adminB = Admin"
    by (simp add: example_defs)
  have seller: "findUserById db_demo ''u2'' = Some user_sellerB"
    "user_role user_sellerB = Seller"
    "1 < countUsersByRestaurant db_demo (user_restaurantId user_sellerB)"
    by (simp_all add: example_defs user_query_defs)
  note rule = deleteUser_by_admin [OF actor adm, of "''u2''"]
  from rule seller have ok: "fst (deleteUser db_demo ''u2'' ''u1'') = Inr ()"
    by auto
  with rule have st: "snd (deleteUser db_demo ''u2'' ''u1'') = delete_user_rows db_demo ''u2''"
    by blast
  from ok st have run: "deleteUser db_demo ''u2'' ''u1'' = (Inr (), delete_user_rows db_demo ''u2'')"
    by (simp add: prod_eq_iff)
  have ids: "map user_id (users (delete_user_rows db_demo ''u2'')) = [''u0'', ''u1'', ''u3'', ''u4'']"
    by (simp add: example_defs user_query_defs)
  have denied: "deleteUser db_demo ''u3'' ''u1'' = (Inl NoPermissionAdmin, db_demo)"
    "deleteUser db_demo ''u0'' ''u1'' = (Inl NoPermissionAdmin, db_demo)"
    by (simp_all add: deleteUser_def Let_def example_defs user_query_defs)
  from actor adm run ids denied show ?thesis by simp
qed

text \<open>
  C9. The test for the last user of a restaurant is in the admin's branch only. When the
  acting user has role superadmin and the target is another, existing user that is not
  the only superadmin, \<open>deleteUser\<close> succeeds and removes the target's row; when the
  target was the last user of its restaurant, that restaurant is left with no user.
\<close>

theorem deleteUser_by_superadmin_last_user:
  assumes "findUserById d cur = Some a"
    and "user_role a = Superadmin"
    and "i \<noteq> cur"
    and "findUserById d i = Some t"
    and "\<not> (user_role t = Superadmin \<and> countUsersByRole d Superadmin \<le> 1)"
  shows "deleteUser d i cur = (Inr (), delete_user_rows d i)
    \<and> findUserById (snd (deleteUser d i cur)) i = None
    \<and> (countUsersByRestaurant d (user_restaurantId t) \<le> 1 \<longrightarrow>
         countUsersByRestaurant (snd (deleteUser d i cur)) (user_restaurantId t) = 0)"
proof -
  have run: "deleteUser d i cur = (Inr (), delete_user_rows d i)"
    using assms by (auto simp: deleteUser_def Let_def)
  moreover have "findUserById (delete_user_rows d i) i = None"
    by (rule findUserById_deleted)
  moreover have "countUsersByRestaurant (delete_user_rows d i) (user_restaurantId t) = 0"
    if "countUsersByRestaurant d (user_restaurantId t) \<le> 1"
    using last_user_of_restaurant_removed [OF assms(4) that] .
  ultimately show ?thesis by simp
qed

theorem deleteUser_by_superadmin_last_user_witness:
  "findUserById db_demo ''u0'' = Some user_root
   \<and> user_role user_root = Superadmin
   \<and> findUserById db_demo ''u4'' = Some user_adminC
   \<and> countUsersByRestaurant db_demo ''rC'' = 1
   \<and> fst (deleteUser db_demo ''u4'' ''u0'') = Inr ()
   \<and> findUserById (snd (deleteUser db_demo ''u4'' ''u0'')) ''u4'' = None
   \<and> countUsersByRestaurant (snd (deleteUser db_demo ''u4'' ''u0'')) ''rC'' = 0"
proof -
  have actor: "findUserById db_demo ''u0'' = Some user_root"
    and su: "user_role user_root = Superadmin"
    and target: "findUserById db_demo ''u4'' = Some user_adminC"
    and other: "\<not> (user_role user_adminC = Superadmin \<and> countUsersByRole db_demo Superadmin \<le> 1)"
    and last: "countUsersByRestaurant db_demo ''rC'' = 1"
    and rc: "user_restaurantId user_adminC = ''rC''"
    by (simp_all add: example_defs user_query_defs)
  have ne: "''u4'' \<noteq> ''u0''" by simp
  from last have last': "countUsersByRestaurant db_demo ''rC'' \<le> 1" by simp
  note del = deleteUser_by_superadmin_last_user [OF actor su ne target other, unfolded rc]
  from del have ok: "fst (deleteUser db_demo ''u4'' ''u0'') = Inr ()"
    by (simp only: fst_conv)
  from del have gone: "findUserById (snd (deleteUser db_demo ''u4'' ''u0'')) ''u4'' = None"
    by blast
  from del last' have none: "countUsersByRestaurant (snd (deleteUser db_demo ''u4'' ''u0'')) ''rC'' = 0"
    by blast
  from actor su target last ok gone none show ?thesis by blast
qed

section \<open>Registration and the unique e-mail\<close>

lemma countUsersByEmail_zero:
  "e \<notin> set (map user_email (users d)) \<Longrightarrow> countUsersByEmail d e = 0"
  by (auto simp: countUsersByEmail_def filter_empty_conv)

lemma createRestaurant_succeeds:
  assumes "user_email adminData \<notin> set (map user_email (users d))"
    and "restaurantId \<notin> set (restaurant_ids d)"
    and "userId \<notin> set (map user_id (users d))"
  shows "fst (createRestaurant d restaurantData adminData restaurantId userId) = Inr restaurantId"
  using assms countUsersByEmail_zero [OF assms(1)]
  by (simp add: createRestaurant_def insert_restaurant_def insert_user_def restaurant_ids_def)

text \<open>
  C2. Whenever \<open>createRestaurant\<close> succeeds, it has added one restaurant and one user,
  the administrator, whose role is superadmin if the restaurants table was empty at the
  call and admin otherwise.
\<close>

theorem createRestaurant_admin_role:
  assumes "createRestaurant d restaurantData adminData restaurantId userId = (Inr x, d')"
  shows "x = restaurantId
    \<and> restaurants d' = restaurants d @ [restaurantData\<lparr>restaurant_id := restaurantId\<rparr>]
    \<and> users d' = users d @
        [adminData\<lparr>user_id := userId,
           user_role := (if length (restaurants d) = 0 then Superadmin else Admin),
           user_restaurantId := restaurantId\<rparr>]
    \<and> map_option user_role (findUserById d' userId) =
        Some (if length (restaurants d) = 0 then Superadmin else Admin)"
proof -
  let ?r = "restaurantData\<lparr>restaurant_id := restaurantId\<rparr>"
  let ?u = "adminData\<lparr>user_id := userId,
    user_role := (if length (restaurants d) = 0 then Superadmin else Admin),
    user_restaurantId := restaurantId\<rparr>"
  from assms obtain d1 where
    ins_r: "insert_restaurant d ?r = Inr d1" and ins_u: "insert_user d1 ?u = Inr d'"
    and x: "x = restaurantId"
    by (auto simp: createRestaurant_def Let_def split: if_splits sum.splits)
  from ins_r have d1: "d1 = d\<lparr>restaurants := restaurants d @ [?r]\<rparr>"
    by (simp add: insert_restaurant_def split: if_splits)
  from ins_u have fresh: "userId \<notin> set (map user_id (users d1))"
    and d': "d' = d1\<lparr>users := users d1 @ [?u]\<rparr>"
    by (simp_all add: insert_user_def split: if_splits)
  from fresh have "find (\<lambda>u. user_id u = userId) (users d1) = None"
    by (auto simp: find_None_iff)
  then have "findUserById d' userId = Some ?u"
    by (simp add: d' findUserById_def find_snoc)
  with x d1 d' show ?thesis by simp
qed

theorem createRestaurant_admin_role_witness:
  "fst (createRestaurant db_empty rest_form admin_form ''rD'' ''u9'') = Inr ''rD''
   \<and> map user_role (users (snd (createRestaurant db_empty rest_form admin_form ''rD'' ''u9'')))
       = [Superadmin]
   \<and> fst (createRestaurant db_demo rest_form admin_form ''rD'' ''u9'') = Inr ''rD''
   \<and> map user_role (users (snd (createRestaurant db_demo rest_form admin_form ''rD'' ''u9'')))
       = [Superadmin, Admin, Seller, Admin, Admin, Admin]"
proof -
  have first: "fst (createRestaurant db_empty rest_form admin_form ''rD'' ''u9'') = Inr ''rD''"
    by (rule createRestaurant_succeeds) (simp_all add: example_defs restaurant_ids_def)
  have later: "fst (createRestaurant db_demo rest_form admin_form ''rD'' ''u9'') = Inr ''rD''"
    by (rule createRestaurant_succeeds) (simp_all add: example_defs restaurant_ids_def)
  from first have e1: "createRestaurant db_empty rest_form admin_form ''rD'' ''u9''
      = (Inr ''rD'', snd (createRestaurant db_empty rest_form admin_form ''rD'' ''u9''))"
    by (simp add: prod_eq_iff)
  from later have e2: "createRestaurant db_demo rest_form admin_form ''rD'' ''u9''
      = (Inr ''rD'', snd (createRestaurant db_demo rest_form admin_form ''rD'' ''u9''))"
    by (simp add: prod_eq_iff)
  have r1: "map user_role (users (snd (createRestaurant db_empty rest_form admin_form ''rD'' ''u9'')))
      = [Superadmin]"
    using createRestaurant_admin_role [OF e1] by (simp add: example_defs)
  have r2: "map user_role (users (snd (createRestaurant db_demo rest_form admin_form ''rD'' ''u9'')))
      = [Superadmin, Admin, Seller, Admin, Admin, Admin]"
    using createRestaurant_admin_role [OF e2] by (simp add: example_defs)
  from first later r1 r2 show ?thesis by blast
qed

text \<open>
  C5. When some user already has the e-mail, \<open>createRestaurant\<close> with that e-mail for
  the administrator and \<open>addUser\<close> with that e-mail both fail with the error of the
  e-mail in use, whatever the restaurant, and leave every table as it was: no user row
  and no restaurant row is added.
\<close>

theorem duplicate_email_rejected:
  assumes "e \<in> set (map user_email (users d))"
    and "user_email adminData = e"
    and "user_email userData = e"
  shows "createRestaurant d restaurantData adminData restaurantId userId = (Inl EmailInUse, d)
    \<and> addUser d userData userId' = (Inl EmailInUse, d)
    \<and> users (snd (createRestaurant d restaurantData adminData restaurantId userId)) = users d
    \<and> restaurants (snd (createRestaurant d restaurantData adminData restaurantId userId))
        = restaurants d
    \<and> users (snd (addUser d userData userId')) = users d"
proof -
  from assms(1) have "0 < countUsersByEmail d e"
    by (rule countUsersByEmail_pos)
  with assms(2,3) show ?thesis
    by (simp add: createRestaurant_def addUser_def)
qed

theorem duplicate_email_rejected_witness:
  "''saul@b.es'' \<in> set (map user_email (users db_demo))
   \<and> createRestaurant db_demo rest_form (admin_form\<lparr>user_email := ''saul@b.es''\<rparr>) ''rD'' ''u9''
       = (Inl EmailInUse, db_demo)
   \<and> addUser db_demo (admin_form\<lparr>user_email := ''saul@b.es'', user_restaurantId := ''rA''\<rparr>) ''u9''
       = (Inl EmailInUse, db_demo)"
proof -
  have used: "''saul@b.es'' \<in> set (map user_email (users db_demo))"
    by (simp add: example_defs)
  have a: "user_email (admin_form\<lparr>user_email := ''saul@b.es''\<rparr>) = ''saul@b.es''"
    and b: "user_email (admin_form\<lparr>user_email := ''saul@b.es'', user_restaurantId := ''rA''\<rparr>)
      = ''saul@b.es''"
    by simp_all
  from duplicate_email_rejected [OF used a b, of rest_form "''rD''" "''u9''" "''u9''"] used
  show ?thesis by blast
qed

section \<open>Passwords\<close>

lemma addUser_stores_password:
  assumes "addUser d userData userId = (Inr u, d')"
  shows "users d' = users d @ [u] \<and> user_password u = user_password userData"
  using assms
  by (auto simp: addUser_def Let_def insert_user_def split: if_splits sum.splits)

text \<open>
  C6 does not hold of the code: each of the four writes stores the password it is given,
  character for character, and the login form then compares the stored password with the
  one typed.
\<close>

theorem passwords_stored_as_supplied:
  "map user_password
      (users (snd (createRestaurant db_empty rest_form admin_form ''rD'' ''u9''))) = [''dorapass'']
   \<and> map_option user_password
      (findUserById (snd (addUser db_demo (admin_form\<lparr>user_restaurantId := ''rA''\<rparr>) ''u9'')) ''u9'')
      = Some ''dorapass''
   \<and> map_option user_password
      (findUserById
        (snd (updateUser db_demo ''u2'' (no_user_fields\<lparr>f_password := Some ''secret99''\<rparr>))) ''u2'')
      = Some ''secret99''
   \<and> map_option user_password
      (findUserById
        (snd (updateRestaurant db_demo ''rB'' no_restaurant_fields
          (Some \<lparr>au_id = ''u1'', au_email = ''berta@b.es'', au_password = Some ''secret99''\<rparr>)))
        ''u1'')
      = Some ''secret99''
   \<and> map_option user_id
      (map_option loggedInUser
        (onSubmit (snd (addUser db_demo (admin_form\<lparr>user_restaurantId := ''rA''\<rparr>) ''u9''))
          ''dora@d.es'' ''dorapass''))
      = Some ''u9''"
  by (simp add: createRestaurant_def addUser_def updateUser_def updateRestaurant_def
      update_user_rows_def user_fields_empty_def insert_user_def insert_restaurant_def has_keys_def
      admin_update_fields_def set_user_fields_def findRestaurantWithUsers_def
      onSubmit_def getAllRestaurantsWithUsers_def
      Let_def example_defs user_query_defs)

section \<open>Sales\<close>

text \<open>
  C7, as the claim states it, fails: \<open>addSale\<close> stores a sale whose items amount to
  25.50 with the total 99.00 that the caller supplied.
\<close>

theorem addSale_total_not_validated_counterexample:
  "fst (addSale db_demo sale_new ''s9'') = Inr (sale_new\<lparr>sale_id := ''s9''\<rparr>)
   \<and> map_option sale_totalPrice (getSaleById (snd (addSale db_demo sale_new ''s9'')) ''s9'')
       = Some 9900
   \<and> map_option (items_total \<circ> sale_items)
       (getSaleById (snd (addSale db_demo sale_new ''s9'')) ''s9'') = Some 2550"
  by (simp add: addSale_def insert_sale_def getSaleById_def items_total_def Let_def
      example_defs restaurant_ids_def)

text \<open>
  C7, amended. \<open>addSale\<close> does not compare the total with the items. When the insert
  succeeds (the identifier is new and the restaurant exists) the sale is stored with the
  total and the items that were supplied, unchanged and in order, so the stored total is
  the sum of price times quantity over the items exactly when the supplied total was.
\<close>

theorem addSale_stores_supplied_total:
  assumes "saleId \<notin> set (map sale_id (sales d))"
    and "sale_restaurantId sale \<in> set (restaurant_ids d)"
  shows "fst (addSale d sale saleId) = Inr (sale\<lparr>sale_id := saleId\<rparr>)
    \<and> sales (snd (addSale d sale saleId)) = sales d @ [sale\<lparr>sale_id := saleId\<rparr>]
    \<and> getSaleById (snd (addSale d sale saleId)) saleId = Some (sale\<lparr>sale_id := saleId\<rparr>)
    \<and> map_option sale_totalPrice (getSaleById (snd (addSale d sale saleId)) saleId)
        = Some (sale_totalPrice sale)
    \<and> map_option sale_items (getSaleById (snd (addSale d sale saleId)) saleId)
        = Some (sale_items sale)
    \<and> (map_option sale_totalPrice (getSaleById (snd (addSale d sale saleId)) saleId)
          = Some (items_total (sale_items sale)))
        = (sale_totalPrice sale = items_total (sale_items sale))"
proof -
  have run: "addSale d sale saleId
      = (Inr (sale\<lparr>sale_id := saleId\<rparr>), d\<lparr>sales := sales d @ [sale\<lparr>sale_id := saleId\<rparr>]\<rparr>)"
    using assms by (simp add: addSale_def insert_sale_def Let_def)
  from assms(1) have "find (\<lambda>s. sale_id s = saleId) (sales d) = None"
    by (auto simp: find_None_iff)
  then have reread: "getSaleById (snd (addSale d sale saleId)) saleId = Some (sale\<lparr>sale_id := saleId\<rparr>)"
    by (simp add: run getSaleById_def find_snoc)
  from run reread show ?thesis by simp
qed

theorem addSale_stores_supplied_total_witness:
  "''s9'' \<notin> set (map sale_id (sales db_demo))
   \<and> sale_restaurantId (sale_new\<lparr>sale_totalPrice := 2550\<rparr>) \<in> set (restaurant_ids db_demo)
   \<and> items_total (sale_items (sale_new\<lparr>sale_totalPrice := 2550\<rparr>)) = 2550
   \<and> map_option sale_totalPrice
       (getSaleById (snd (addSale db_demo (sale_new\<lparr>sale_totalPrice := 2550\<rparr>) ''s9'')) ''s9'')
       = Some 2550
   \<and> map_option sale_items
       (getSaleById (snd (addSale db_demo (sale_new\<lparr>sale_totalPrice := 2550\<rparr>) ''s9'')) ''s9'')
       = Some (sale_items sale_new)"
proof -
  have fresh: "''s9'' \<notin> set (map sale_id (sales db_demo))"
    and fk: "sale_restaurantId (sale_new\<lparr>sale_totalPrice := 2550\<rparr>) \<in> set (restaurant_ids db_demo)"
    and sum: "items_total (sale_items (sale_new\<lparr>sale_totalPrice := 2550\<rparr>)) = 2550"
    by (simp_all add: example_defs restaurant_ids_def items_total_def)
  note stored = addSale_stores_supplied_total [OF fresh fk]
  from stored have total: "map_option sale_totalPrice
      (getSaleById (snd (addSale db_demo (sale_new\<lparr>sale_totalPrice := 2550\<rparr>) ''s9'')) ''s9'')
      = Some 2550"
    by simp
  from stored have items: "map_option sale_items
      (getSaleById (snd (addSale db_demo (sale_new\<lparr>sale_totalPrice := 2550\<rparr>) ''s9'')) ''s9'')
      = Some (sale_items sale_new)"
    by simp
  from fresh fk sum total items show ?thesis by blast
qed

section \<open>The scope of the lists\<close>

lemma findSuperAdminUser_role:
  "findSuperAdminUser xs = Some u \<Longrightarrow> user_role u = Superadmin"
  by (induction xs rule: findSuperAdminUser.induct)
    (auto simp: find_Some_iff split: option.splits)

lemma findLoggedInUser_member:
  "findLoggedInUser xs e p = Some (u, r) \<Longrightarrow> \<exists>us. (r, us) \<in> set xs \<and> u \<in> set us"
proof (induction xs e p rule: findLoggedInUser.induct)
  case (1 e p)
  then show ?case by simp
next
  case (2 r' us rest e p)
  show ?case
  proof (cases "find (\<lambda>u. user_email u = e) us")
    case None
    with 2 show ?thesis by auto
  next
    case (Some foundUser)
    then have mem: "foundUser \<in> set us"
      by (auto simp: find_Some_iff)
    show ?thesis
    proof (cases "user_password foundUser = p")
      case True
      with 2 Some mem show ?thesis by auto
    next
      case False
      with 2 Some show ?thesis by auto
    qed
  qed
qed

lemma findLoggedInUser_restaurant:
  assumes "findLoggedInUser (getAllRestaurantsWithUsers d) e p = Some (u, r)"
  shows "user_restaurantId u = restaurant_id r"
proof -
  from findLoggedInUser_member [OF assms] obtain us
    where "(r, us) \<in> set (getAllRestaurantsWithUsers d)" and "u \<in> set us"
    by blast
  then show ?thesis
    by (auto simp: getAllRestaurantsWithUsers_def)
qed

lemma onSubmit_scope:
  assumes "onSubmit d e p = Some ses"
    and "user_role (loggedInUser ses) \<noteq> Superadmin"
  shows "activeRestaurantId ses = user_restaurantId (loggedInUser ses)"
proof (cases "e = ''superadmin@example.com'' \<and> p = ''password123''")
  case True
  with assms(1) obtain u where "findSuperAdminUser (getAllRestaurantsWithUsers d) = Some u"
    and "loggedInUser ses = u"
    by (auto simp: onSubmit_def split: option.splits)
  with findSuperAdminUser_role assms(2) show ?thesis by blast
next
  case False
  with assms(1) obtain u r where
    found: "findLoggedInUser (getAllRestaurantsWithUsers d) e p = Some (u, r)"
    and ses: "ses = \<lparr>loggedInUser = u,
      activeRestaurantId = (if user_role u = Superadmin then ''all'' else restaurant_id r)\<rparr>"
    by (auto simp: onSubmit_def split: option.splits)
  from findLoggedInUser_restaurant [OF found] ses assms(2) show ?thesis by simp
qed

text \<open>
  C3, as the claim states it, fails: the list actions take the scope and no actor, so
  \<open>''all''\<close> on behalf of a seller of restaurant \<open>rB\<close> returns the product and the sale
  of restaurant \<open>rA\<close>.
\<close>

theorem list_all_for_non_superadmin_counterexample:
  "findUserById db_demo ''u2'' = Some user_sellerB
   \<and> user_role user_sellerB \<noteq> Superadmin
   \<and> prod_A \<in> set (getProductsForRestaurant db_demo ''all'')
   \<and> product_restaurantId prod_A \<noteq> user_restaurantId user_sellerB
   \<and> sale_A \<in> set (getSalesForRestaurant db_demo ''all'')
   \<and> sale_restaurantId sale_A \<noteq> user_restaurantId user_sellerB"
  by (simp add: getProductsForRestaurant_def getSalesForRestaurant_def findUserById_def
      example_defs)

text \<open>
  C3, amended. The five list actions take the scope and no actor: with the scope
  \<open>''all''\<close> each returns every row of its table, whoever calls, and with any other scope
  exactly the rows whose \<^verbatim>\<open>restaurantId\<close> is the scope, in the order of the table. The
  scope that the login form stores for an actor whose role is not superadmin is the
  identifier of the actor's own restaurant; with that scope (an identifier other than
  \<open>''all''\<close>) each list holds exactly the rows of the actor's restaurant.
\<close>

theorem list_scope_after_login:
  "(getProductsForRestaurant d ''all'' = products d
      \<and> getCategoriesForRestaurant d ''all'' = categories d
      \<and> getCustomersForRestaurant d ''all'' = customers d
      \<and> getPurchasesForRestaurant d ''all'' = purchases d
      \<and> getSalesForRestaurant d ''all'' = sales d)
    \<and> (scope \<noteq> ''all'' \<longrightarrow>
        getProductsForRestaurant d scope
          = filter (\<lambda>x. product_restaurantId x = scope) (products d)
        \<and> getCategoriesForRestaurant d scope
          = filter (\<lambda>x. category_restaurantId x = scope) (categories d)
        \<and> getCustomersForRestaurant d scope
          = filter (\<lambda>x. customer_restaurantId x = scope) (customers d)
        \<and> getPurchasesForRestaurant d scope
          = filter (\<lambda>x. purchase_restaurantId x = scope) (purchases d)
        \<and> getSalesForRestaurant d scope
          = filter (\<lambda>x. sale_restaurantId x = scope) (sales d))
    \<and> (onSubmit d e p = Some ses \<and> user_role (loggedInUser ses) \<noteq> Superadmin \<longrightarrow>
        activeRestaurantId ses = user_restaurantId (loggedInUser ses))
    \<and> (onSubmit d e p = Some ses \<and> user_role (loggedInUser ses) \<noteq> Superadmin
        \<and> user_restaurantId (loggedInUser ses) \<noteq> ''all'' \<longrightarrow>
        getProductsForRestaurant d (activeRestaurantId ses)
          = filter (\<lambda>x. product_restaurantId x = user_restaurantId (loggedInUser ses)) (products d)
        \<and> getCategoriesForRestaurant d (activeRestaurantId ses)
          = filter (\<lambda>x. category_restaurantId x = user_restaurantId (loggedInUser ses))
              (categories d)
        \<and> getCustomersForRestaurant d (activeRestaurantId ses)
          = filter (\<lambda>x. customer_restaurantId x = user_restaurantId (loggedInUser ses))
              (customers d)
        \<and> getPurchasesForRestaurant d (activeRestaurantId ses)
          = filter (\<lambda>x. purchase_restaurantId x = user_restaurantId (loggedInUser ses))
              (purchases d)
        \<and> getSalesForRestaurant d (activeRestaurantId ses)
          = filter (\<lambda>x. sale_restaurantId x = user_restaurantId (loggedInUser ses)) (sales d))"
proof -
  have all: "getProductsForRestaurant d ''all'' = products d
      \<and> getCategoriesForRestaurant d ''all'' = categories d
      \<and> getCustomersForRestaurant d ''all'' = customers d
      \<and> getPurchasesForRestaurant d ''all'' = purchases d
      \<and> getSalesForRestaurant d ''all'' = sales d"
    by (simp add: getProductsForRestaurant_def getCategoriesForRestaurant_def
        getCustomersForRestaurant_def getPurchasesForRestaurant_def getSalesForRestaurant_def)
  have scoped: "getProductsForRestaurant d s
        = filter (\<lambda>x. product_restaurantId x = s) (products d)
      \<and> getCategoriesForRestaurant d s
        = filter (\<lambda>x. category_restaurantId x = s) (categories d)
      \<and> getCustomersForRestaurant d s
        = filter (\<lambda>x. customer_restaurantId x = s) (customers d)
      \<and> getPurchasesForRestaurant d s
        = filter (\<lambda>x. purchase_restaurantId x = s) (purchases d)
      \<and> getSalesForRestaurant d s
        = filter (\<lambda>x. sale_restaurantId x = s) (sales d)"
    if "s \<noteq> ''all''" for s
    using that
    by (simp add: getProductsForRestaurant_def getCategoriesForRestaurant_def
        getCustomersForRestaurant_def getPurchasesForRestaurant_def getSalesForRestaurant_def)
  have login: "activeRestaurantId ses = user_restaurantId (loggedInUser ses)"
    if "onSubmit d e p = Some ses \<and> user_role (loggedInUser ses) \<noteq> Superadmin"
    using that onSubmit_scope [of d e p ses] by blast
  have own: "getProductsForRestaurant d (activeRestaurantId ses)
        = filter (\<lambda>x. product_restaurantId x = user_restaurantId (loggedInUser ses)) (products d)
      \<and> getCategoriesForRestaurant d (activeRestaurantId ses)
        = filter (\<lambda>x. category_restaurantId x = user_restaurantId (loggedInUser ses))
            (categories d)
      \<and> getCustomersForRestaurant d (activeRestaurantId ses)
        = filter (\<lambda>x. customer_restaurantId x = user_restaurantId (loggedInUser ses))
            (customers d)
      \<and> getPurchasesForRestaurant d (activeRestaurantId ses)
        = filter (\<lambda>x. purchase_restaurantId x = user_restaurantId (loggedInUser ses))
            (purchases d)
      \<and> getSalesForRestaurant d (activeRestaurantId ses)
        = filter (\<lambda>x. sale_restaurantId x = user_restaurantId (loggedInUser ses)) (sales d)"
    if h: "onSubmit d e p = Some ses \<and> user_role (loggedInUser ses) \<noteq> Superadmin
      \<and> user_restaurantId (loggedInUser ses) \<noteq> ''all''"
  proof -
    from h login have eq: "activeRestaurantId ses = user_restaurantId (loggedInUser ses)"
      by blast
    from h have "user_restaurantId (loggedInUser ses) \<noteq> ''all''"
      by blast
    from scoped [OF this] show ?thesis
      unfolding eq .
  qed
  from all scoped [of scope] login own show ?thesis
    by blast
qed

theorem list_scope_after_login_witness:
  "''rB'' \<noteq> ''all''
   \<and> getProductsForRestaurant db_demo ''rB'' = [prod_B]
   \<and> getProductsForRestaurant db_demo ''rA'' = [prod_A]
   \<and> getSalesForRestaurant db_demo ''rA'' = [sale_A]
   \<and> getProductsForRestaurant db_demo ''all'' = [prod_A, prod_B]
   \<and> onSubmit db_demo ''saul@b.es'' ''saulpass''
      = Some \<lparr>loggedInUser = user_sellerB, activeRestaurantId = ''rB''\<rparr>
   \<and> user_role user_sellerB \<noteq> Superadmin
   \<and> user_restaurantId user_sellerB \<noteq> ''all''
   \<and> getProductsForRestaurant db_demo
        (activeRestaurantId \<lparr>loggedInUser = user_sellerB, activeRestaurantId = ''rB''\<rparr>)
      = [prod_B]
   \<and> getSalesForRestaurant db_demo
        (activeRestaurantId \<lparr>loggedInUser = user_sellerB, activeRestaurantId = ''rB''\<rparr>)
      = []"
proof -
  let ?ses = "\<lparr>loggedInUser = user_sellerB, activeRestaurantId = ''rB''\<rparr>"
  have neB: "''rB'' \<noteq> ''all''" and neA: "''rA'' \<noteq> ''all''"
    by simp_all
  have login: "onSubmit db_demo ''saul@b.es'' ''saulpass'' = Some ?ses"
    by (simp add: onSubmit_def getAllRestaurantsWithUsers_def example_defs)
  have role: "user_role (loggedInUser ?ses) \<noteq> Superadmin"
    and own: "user_restaurantId (loggedInUser ?ses) \<noteq> ''all''"
    by (simp_all add: example_defs)
  have role': "user_role user_sellerB \<noteq> Superadmin"
    and own': "user_restaurantId user_sellerB \<noteq> ''all''"
    by (simp_all add: example_defs)
  note atB = list_scope_after_login [of db_demo "''rB''" "''saul@b.es''" "''saulpass''" ?ses]
  note atA = list_scope_after_login [of db_demo "''rA''" "''saul@b.es''" "''saulpass''" ?ses]
  have rowsB: "filter (\<lambda>x. product_restaurantId x = ''rB'') (products db_demo) = [prod_B]"
    and rowsA: "filter (\<lambda>x. product_restaurantId x = ''rA'') (products db_demo) = [prod_A]"
    and salesA: "filter (\<lambda>x. sale_restaurantId x = ''rA'') (sales db_demo) = [sale_A]"
    and salesB: "filter (\<lambda>x. sale_restaurantId x = ''rB'') (sales db_demo) = []"
    and allP: "products db_demo = [prod_A, prod_B]"
    and rB: "user_restaurantId (loggedInUser ?ses) = ''rB''"
    by (simp_all add: example_defs)
  from atB neB have "getProductsForRestaurant db_demo ''rB''
      = filter (\<lambda>x. product_restaurantId x = ''rB'') (products db_demo)"
    by blast
  with rowsB have pB: "getProductsForRestaurant db_demo ''rB'' = [prod_B]"
    by simp
  from atA neA have "getProductsForRestaurant db_demo ''rA''
      = filter (\<lambda>x. product_restaurantId x = ''rA'') (products db_demo)"
    by blast
  with rowsA have pA: "getProductsForRestaurant db_demo ''rA'' = [prod_A]"
    by simp
  from atA neA have "getSalesForRestaurant db_demo ''rA''
      = filter (\<lambda>x. sale_restaurantId x = ''rA'') (sales db_demo)"
    by blast
  with salesA have sA: "getSalesForRestaurant db_demo ''rA'' = [sale_A]"
    by simp
  from atB have "getProductsForRestaurant db_demo ''all'' = products db_demo"
    by blast
  with allP have pAll: "getProductsForRestaurant db_demo ''all'' = [prod_A, prod_B]"
    by simp
  from atB login role own have "getProductsForRestaurant db_demo (activeRestaurantId ?ses)
      = filter (\<lambda>x. product_restaurantId x = user_restaurantId (loggedInUser ?ses))
          (products db_demo)"
    by blast
  with rowsB rB have pOwn: "getProductsForRestaurant db_demo (activeRestaurantId ?ses) = [prod_B]"
    by simp
  from atB login role own have "getSalesForRestaurant db_demo (activeRestaurantId ?ses)
      = filter (\<lambda>x. sale_restaurantId x = user_restaurantId (loggedInUser ?ses))
          (sales db_demo)"
    by blast
  with salesB rB have sOwn: "getSalesForRestaurant db_demo (activeRestaurantId ?ses) = []"
    by simp
  from neB pB pA sA pAll login role' own' pOwn sOwn show ?thesis
    by blast
qed

section \<open>Facts about updates\<close>

lemma user_id_set_user_fields: "user_id (set_user_fields f u) = user_id u"
  by (simp add: set_user_fields_def)

lemma find_updated_row:
  "find (\<lambda>u. user_id u = i) (map (\<lambda>u. if user_id u = i then set_user_fields f u else u) xs)
    = map_option (set_user_fields f) (find (\<lambda>u. user_id u = i) xs)"
  by (induction xs) (simp_all add: user_id_set_user_fields)

lemma find_other_row:
  "j \<noteq> i \<Longrightarrow>
    find (\<lambda>u. user_id u = j) (map (\<lambda>u. if user_id u = i then set_user_fields f u else u) xs)
    = find (\<lambda>u. user_id u = j) xs"
  by (induction xs) (simp_all add: user_id_set_user_fields)

lemma otherUserWithEmail_intro:
  "u' \<in> set (users d) \<Longrightarrow> user_email u' = e \<Longrightarrow> user_id u' \<noteq> i \<Longrightarrow> otherUserWithEmail d e i"
  by (auto simp: otherUserWithEmail_def list_ex_iff)

lemma own_email_no_other:
  assumes "db_constraints d" and "findUserById d i = Some u"
  shows "\<not> otherUserWithEmail d (user_email u) i"
proof
  assume "otherUserWithEmail d (user_email u) i"
  then obtain u' where u': "u' \<in> set (users d)" "user_email u' = user_email u" "user_id u' \<noteq> i"
    by (auto simp: otherUserWithEmail_def list_ex_iff)
  from assms(1) have "inj_on user_email (set (users d))"
    by (simp add: db_constraints_def distinct_map)
  with u'(1,2) findUserById_Some(1) [OF assms(2)] have "u' = u"
    by (auto dest: inj_onD)
  with u'(3) findUserById_Some(2) [OF assms(2)] show False by simp
qed

lemma update_user_rows_found:
  assumes "findUserById d i = Some u"
    and "update_user_rows d i f = Inr d'"
  shows "d' = d\<lparr>users := map (\<lambda>x. if user_id x = i then set_user_fields f x else x) (users d)\<rparr>"
  using assms by (simp add: update_user_rows_def split: if_splits)

lemma updateUser_success:
  assumes "findUserById d i = Some u"
    and "updateUser d i f = (Inr res, d')"
  shows "d' = d\<lparr>users := map (\<lambda>x. if user_id x = i then set_user_fields f x else x) (users d)\<rparr>"
    and "res = Some (set_user_fields f u)"
    and "findUserById d' i = Some (set_user_fields f u)"
proof -
  from assms(2) have upd: "update_user_rows d i f = Inr d'" and res: "res = findUserById d' i"
    by (auto simp: updateUser_def split: if_splits sum.splits)
  from update_user_rows_found [OF assms(1) upd]
  show d': "d' = d\<lparr>users := map (\<lambda>x. if user_id x = i then set_user_fields f x else x) (users d)\<rparr>" .
  from assms(1) show found: "findUserById d' i = Some (set_user_fields f u)"
    by (simp add: d' findUserById_def find_updated_row)
  from res found show "res = Some (set_user_fields f u)" by simp
qed

lemma updateUser_runs:
  assumes "findUserById d i = Some u"
    and "\<not> user_fields_empty f"
    and "case f_email f of None \<Rightarrow> True | Some e \<Rightarrow> \<not> otherUserWithEmail d e i"
    and "case f_restaurantId f of None \<Rightarrow> True | Some r \<Rightarrow> r \<in> set (restaurant_ids d)"
  shows "updateUser d i f =
    (Inr (Some (set_user_fields f u)),
     d\<lparr>users := map (\<lambda>x. if user_id x = i then set_user_fields f x else x) (users d)\<rparr>)"
proof -
  let ?d' = "d\<lparr>users := map (\<lambda>x. if user_id x = i then set_user_fields f x else x) (users d)\<rparr>"
  from assms have upd: "update_user_rows d i f = Inr ?d'"
    by (auto simp: update_user_rows_def split: option.splits)
  from assms(1) have "findUserById ?d' i = Some (set_user_fields f u)"
    by (simp add: findUserById_def find_updated_row)
  with upd assms(3) show ?thesis
    by (auto simp: updateUser_def split: option.splits)
qed

section \<open>The writes keep the constraints\<close>

lemma db_constraints_empty: "db_constraints db_empty"
  by (simp add: db_constraints_def db_empty_def)

lemma insert_restaurant_constraints:
  assumes "db_constraints d" and "insert_restaurant d r = Inr d'"
  shows "db_constraints d'"
  using assms
  by (auto simp: db_constraints_def insert_restaurant_def restaurant_ids_def list_all_iff
      split: if_splits)

lemma insert_user_constraints:
  assumes "db_constraints d" and "insert_user d u = Inr d'"
  shows "db_constraints d'"
  using assms
  by (auto simp: db_constraints_def insert_user_def restaurant_ids_def list_all_iff
      split: if_splits)

lemma delete_user_rows_constraints:
  assumes "db_constraints d"
  shows "db_constraints (delete_user_rows d i)"
  using assms
  by (auto simp: db_constraints_def delete_user_rows_def restaurant_ids_def list_all_iff
      distinct_map_filter)

lemma update_restaurant_rows_ids:
  "restaurant_ids (update_restaurant_rows d i f) = restaurant_ids d"
  by (simp add: restaurant_ids_def update_restaurant_rows_def set_restaurant_fields_def
      comp_def if_distrib cong: if_cong)


lemma update_restaurant_rows_constraints:
  assumes "db_constraints d"
  shows "db_constraints (update_restaurant_rows d i f)"
proof -
  have ids: "map restaurant_id (restaurants (update_restaurant_rows d i f))
      = map restaurant_id (restaurants d)"
    using update_restaurant_rows_ids [of d i f] by (simp add: restaurant_ids_def)
  have "users (update_restaurant_rows d i f) = users d"
    by (simp add: update_restaurant_rows_def)
  with assms ids show ?thesis
    by (simp add: db_constraints_def restaurant_ids_def)
qed

lemma update_user_rows_constraints:
  assumes wf: "db_constraints d" and upd: "update_user_rows d i f = Inr d'"
  shows "db_constraints d'"
proof (cases "findUserById d i")
  case None
  with upd have "d' = d" by (simp add: update_user_rows_def split: if_splits)
  with wf show ?thesis by simp
next
  case (Some u)
  let ?g = "\<lambda>x. if user_id x = i then set_user_fields f x else x"
  from update_user_rows_found [OF Some upd] have d': "d' = d\<lparr>users := map ?g (users d)\<rparr>" .
  from upd Some have email_ok: "f_email f = Some e \<Longrightarrow> \<not> otherUserWithEmail d e i" for e
    by (auto simp: update_user_rows_def split: if_splits)
  from upd Some have fk_ok: "f_restaurantId f = Some r \<Longrightarrow> r \<in> set (restaurant_ids d)" for r
    by (auto simp: update_user_rows_def split: if_splits)
  from wf have dist: "distinct (users d)"
    and inj_id: "inj_on user_id (set (users d))"
    and inj_em: "inj_on user_email (set (users d))"
    and fk: "\<forall>x \<in> set (users d). user_restaurantId x \<in> set (restaurant_ids d)"
    by (simp_all add: db_constraints_def distinct_map list_all_iff)
  have ids: "map user_id (map ?g (users d)) = map user_id (users d)"
    by (simp add: user_id_set_user_fields comp_def if_distrib cong: if_cong)
  have em: "(user_email \<circ> ?g) x
      = (if user_id x = i then (case f_email f of None \<Rightarrow> user_email x | Some e \<Rightarrow> e)
         else user_email x)" for x
    by (simp add: set_user_fields_def)
  have emails: "inj_on (user_email \<circ> ?g) (set (users d))"
  proof (rule inj_onI)
    fix x y
    assume x: "x \<in> set (users d)" and y: "y \<in> set (users d)"
      and eq: "(user_email \<circ> ?g) x = (user_email \<circ> ?g) y"
    show "x = y"
    proof (cases "f_email f")
      case None
      with eq have "user_email x = user_email y"
        unfolding em by (simp split: if_splits)
      with inj_em x y show ?thesis by (blast dest: inj_onD)
    next
      case (Some e)
      from email_ok [OF Some] have only: "user_id z = i"
        if "z \<in> set (users d)" "user_email z = e" for z
        using that by (auto simp: otherUserWithEmail_def list_ex_iff)
      show ?thesis
      proof (cases "user_id x = i")
        case True
        have "user_id y = i"
        proof (rule ccontr)
          assume "user_id y \<noteq> i"
          with eq True Some have "user_email y = e"
            unfolding em by simp
          with only [OF y] \<open>user_id y \<noteq> i\<close> show False by simp
        qed
        with True inj_id x y show ?thesis by (auto dest: inj_onD)
      next
        case False
        have "user_id y \<noteq> i"
        proof
          assume "user_id y = i"
          with eq False Some have "user_email x = e"
            unfolding em by simp
          with only [OF x] False show False by simp
        qed
        with False eq have "user_email x = user_email y"
          unfolding em by simp
        with inj_em x y show ?thesis by (blast dest: inj_onD)
      qed
    qed
  qed
  from dist emails have "distinct (map (user_email \<circ> ?g) (users d))"
    by (simp only: distinct_map simp_thms)
  then have dist_em: "distinct (map user_email (map ?g (users d)))"
    by (simp only: map_map)
  have refs: "user_restaurantId (?g x) \<in> set (restaurant_ids d)" if "x \<in> set (users d)" for x
    using fk fk_ok that by (cases "f_restaurantId f") (simp_all add: set_user_fields_def)
  have u: "users d' = map ?g (users d)" and r: "restaurants d' = restaurants d"
    by (simp_all add: d')
  from wf have c1: "distinct (map restaurant_id (restaurants d'))"
    unfolding r by (simp add: db_constraints_def)
  from wf have c2: "distinct (map user_id (users d'))"
    unfolding u ids by (simp add: db_constraints_def)
  from dist_em have c3: "distinct (map user_email (users d'))"
    unfolding u .
  have rid: "restaurant_ids d' = restaurant_ids d"
    by (simp add: restaurant_ids_def r)
  have c4: "list_all (\<lambda>x. user_restaurantId x \<in> set (restaurant_ids d')) (users d')"
    unfolding u list_all_iff rid
  proof
    fix x
    assume "x \<in> set (map ?g (users d))"
    then obtain y where "y \<in> set (users d)" and "x = ?g y"
      by (auto simp only: set_map image_iff)
    with refs show "user_restaurantId x \<in> set (restaurant_ids d)"
      by simp
  qed
  from c1 c2 c3 c4 show ?thesis
    unfolding db_constraints_def by blast
qed

lemma createRestaurant_constraints:
  assumes "db_constraints d"
  shows "db_constraints (snd (createRestaurant d restaurantData adminData restaurantId userId))"
proof (cases "0 < countUsersByEmail d (user_email adminData)")
  case True
  with assms show ?thesis by (simp add: createRestaurant_def)
next
  case False
  let ?r = "restaurantData\<lparr>restaurant_id := restaurantId\<rparr>"
  show ?thesis
  proof (cases "insert_restaurant d ?r")
    case (Inl e)
    with False assms show ?thesis by (simp add: createRestaurant_def)
  next
    case (Inr d1)
    from insert_restaurant_constraints [OF assms Inr] have wf1: "db_constraints d1" .
    let ?u = "adminData\<lparr>user_id := userId,
      user_role := (if length (restaurants d) = 0 then Superadmin else Admin),
      user_restaurantId := restaurantId\<rparr>"
    show ?thesis
    proof (cases "insert_user d1 ?u")
      case (Inl e)
      with False Inr assms show ?thesis by (simp add: createRestaurant_def)
    next
      case d2: (Inr d2)
      from insert_user_constraints [OF wf1 d2] have "db_constraints d2" .
      with False Inr d2 show ?thesis by (simp add: createRestaurant_def)
    qed
  qed
qed


lemma addUser_constraints:
  assumes "db_constraints d"
  shows "db_constraints (snd (addUser d userData userId))"
proof (cases "insert_user d (userData\<lparr>user_id := userId\<rparr>)")
  case (Inl e)
  with assms show ?thesis by (simp add: addUser_def)
next
  case (Inr d1)
  from insert_user_constraints [OF assms Inr] have "db_constraints d1" .
  with assms Inr show ?thesis by (simp add: addUser_def)
qed

lemma updateUser_constraints:
  assumes "db_constraints d"
  shows "db_constraints (snd (updateUser d i userData))"
proof (cases "update_user_rows d i userData")
  case (Inl e)
  with assms show ?thesis by (simp add: updateUser_def)
next
  case (Inr d1)
  from update_user_rows_constraints [OF assms Inr] have "db_constraints d1" .
  with assms Inr show ?thesis by (simp add: updateUser_def)
qed

lemma deleteUser_constraints:
  assumes "db_constraints d"
  shows "db_constraints (snd (deleteUser d i cur))"
proof -
  have "snd (deleteUser d i cur) = d \<or> snd (deleteUser d i cur) = delete_user_rows d i"
    by (simp add: deleteUser_def Let_def split: option.splits)
  with assms delete_user_rows_constraints [OF assms, of i] show ?thesis
    by auto
qed

lemma updateRestaurant_steps:
  "updateRestaurant d i restaurantData adminData =
    (case adminData of
       None \<Rightarrow>
         (Inr (findRestaurantWithUsers
            (if has_keys restaurantData then update_restaurant_rows d i restaurantData else d) i),
          if has_keys restaurantData then update_restaurant_rows d i restaurantData else d)
     | Some a \<Rightarrow>
         if au_id a = [] then
           (Inr (findRestaurantWithUsers
              (if has_keys restaurantData then update_restaurant_rows d i restaurantData else d) i),
            if has_keys restaurantData then update_restaurant_rows d i restaurantData else d)
         else if otherUserWithEmail
              (if has_keys restaurantData then update_restaurant_rows d i restaurantData else d)
              (au_email a) (au_id a)
           then (Inl EmailRegisteredByOther, d)
         else
           (case update_user_rows
              (if has_keys restaurantData then update_restaurant_rows d i restaurantData else d)
              (au_id a) (admin_update_fields a) of
              Inl e \<Rightarrow> (Inl e, d)
            | Inr d2 \<Rightarrow> (Inr (findRestaurantWithUsers d2 i), d2)))"
  by (simp only: updateRestaurant_def Let_def)

lemma updateRestaurant_constraints:
  assumes "db_constraints d"
  shows "db_constraints (snd (updateRestaurant d i restaurantData adminData))"
proof -
  define d1 where "d1 = (if has_keys restaurantData then update_restaurant_rows d i restaurantData else d)"
  note steps = updateRestaurant_steps [of d i restaurantData, folded d1_def]
  from assms have wf1: "db_constraints d1"
    by (simp add: d1_def update_restaurant_rows_constraints)
  show ?thesis
  proof (cases adminData)
    case None
    with wf1 show ?thesis by (simp add: steps)
  next
    case (Some a)
    show ?thesis
    proof (cases "update_user_rows d1 (au_id a) (admin_update_fields a)")
      case (Inl e)
      with Some wf1 assms show ?thesis
        by (simp add: steps)
    next
      case (Inr d2)
      from update_user_rows_constraints [OF wf1 Inr] have "db_constraints d2" .
      with Some Inr wf1 assms show ?thesis
        by (simp add: steps)
    qed
  qed
qed

text \<open>
  \<open>updateRestaurant\<close> makes the same test without the guard on the e-mail, inside the
  transaction: another user with the e-mail undoes the update of the restaurant as well.
\<close>

lemma updateRestaurant_email_conflict:
  assumes "au_id a \<noteq> []"
    and "u' \<in> set (users d)" and "user_email u' = au_email a" and "user_id u' \<noteq> au_id a"
  shows "updateRestaurant d i restaurantData (Some a) = (Inl EmailRegisteredByOther, d)"
proof -
  define d1 where "d1 = (if has_keys restaurantData then update_restaurant_rows d i restaurantData else d)"
  note steps = updateRestaurant_steps [of d i restaurantData, folded d1_def]
  have "users d1 = users d"
    by (simp add: d1_def update_restaurant_rows_def)
  with assms(2,3,4) have "otherUserWithEmail d1 (au_email a) (au_id a)"
    unfolding otherUserWithEmail_def list_ex_iff by auto
  with assms(1) show ?thesis
    by (simp add: steps)
qed

section \<open>The e-mail of an updated user\<close>

text \<open>
  With the empty string as e-mail the test of \<open>updateUser\<close> is skipped
  (\<^verbatim>\<open>if (userData.email)\<close> is false); when the target exists the unique constraint of
  the table rejects the write, and when no user has the identifier nothing is written and
  the call returns \<^verbatim>\<open>undefined\<close>. With no field at all \<^verbatim>\<open>set\<close> throws.
\<close>

lemma updateUser_no_target:
  assumes "findUserById d i = None"
    and "\<not> user_fields_empty f"
    and "f_email f = None \<or> f_email f = Some []"
  shows "updateUser d i f = (Inr None, d)"
  using assms by (auto simp: updateUser_def update_user_rows_def)

lemma updateUser_no_values:
  assumes "user_fields_empty f"
  shows "updateUser d i f = (Inl NoValuesToSet, d)"
  using assms by (simp add: updateUser_def update_user_rows_def user_fields_empty_def)

lemma updateUser_empty_email_rejected:
  assumes "f_email f = Some []"
    and "findUserById d i = Some u"
    and "u' \<in> set (users d)" and "user_email u' = []" and "user_id u' \<noteq> i"
  shows "updateUser d i f = (Inl DbDuplicateEmail, d)"
  using assms otherUserWithEmail_intro [OF assms(3,4,5)]
  by (simp add: updateUser_def update_user_rows_def user_fields_empty_def)

text \<open>
  C8. \<open>updateUser\<close> with an e-mail among the fields (an e-mail is a string that is not
  empty, which is the test \<^verbatim>\<open>if (userData.email)\<close> of the code): when a user with another
  identifier has that e-mail, in whatever restaurant, the call fails with the error of the
  e-mail in use by another user and the database is as it was before. When the e-mail is
  the one the target has already, the target is not counted against itself: in a database
  that satisfies its constraints the call succeeds and returns the updated user (any new
  restaurant among the fields has to exist).
\<close>

theorem updateUser_email_conflict:
  assumes "f_email f = Some e" and "e \<noteq> []"
  shows "(u' \<in> set (users d) \<and> user_email u' = e \<and> user_id u' \<noteq> i
        \<longrightarrow> updateUser d i f = (Inl EmailInUseByOther, d)
          \<and> users (snd (updateUser d i f)) = users d)
    \<and> (db_constraints d \<and> findUserById d i = Some u \<and> user_email u = e
        \<and> (case f_restaurantId f of None \<Rightarrow> True | Some r \<Rightarrow> r \<in> set (restaurant_ids d))
        \<longrightarrow> fst (updateUser d i f) = Inr (Some (set_user_fields f u))
          \<and> findUserById (snd (updateUser d i f)) i = Some (set_user_fields f u)
          \<and> user_email (set_user_fields f u) = e)"
proof (intro conjI impI)
  assume other: "u' \<in> set (users d) \<and> user_email u' = e \<and> user_id u' \<noteq> i"
  then have "otherUserWithEmail d e i"
    by (blast intro: otherUserWithEmail_intro)
  with assms show conflict: "updateUser d i f = (Inl EmailInUseByOther, d)"
    by (simp add: updateUser_def)
  then show "users (snd (updateUser d i f)) = users d"
    by simp
next
  assume own: "db_constraints d \<and> findUserById d i = Some u \<and> user_email u = e
    \<and> (case f_restaurantId f of None \<Rightarrow> True | Some r \<Rightarrow> r \<in> set (restaurant_ids d))"
  then have found: "findUserById d i = Some u" by simp
  from own own_email_no_other [of d i u] have "\<not> otherUserWithEmail d e i"
    by auto
  with assms(1) have email_ok: "case f_email f of None \<Rightarrow> True | Some e \<Rightarrow> \<not> otherUserWithEmail d e i"
    by simp
  from own have fk_ok: "case f_restaurantId f of None \<Rightarrow> True | Some r \<Rightarrow> r \<in> set (restaurant_ids d)"
    by simp
  from assms(1) have some: "\<not> user_fields_empty f"
    by (simp add: user_fields_empty_def)
  note run = updateUser_runs [OF found some email_ok fk_ok]
  from run show "fst (updateUser d i f) = Inr (Some (set_user_fields f u))"
    by simp
  from found show "findUserById (snd (updateUser d i f)) i = Some (set_user_fields f u)"
    by (simp add: run findUserById_def find_updated_row)
  from assms(1) show "user_email (set_user_fields f u) = e"
    by (simp add: set_user_fields_def)
qed

theorem updateUser_email_conflict_witness:
  "updateUser db_demo ''u2'' (no_user_fields\<lparr>f_email := Some ''berta@b.es''\<rparr>)
      = (Inl EmailInUseByOther, db_demo)
   \<and> db_constraints db_demo
   \<and> findUserById db_demo ''u2'' = Some user_sellerB
   \<and> fst (updateUser db_demo ''u2'' (no_user_fields\<lparr>f_email := Some ''saul@b.es''\<rparr>))
      = Inr (Some user_sellerB)"
proof -
  have taken: "user_adminB \<in> set (users db_demo) \<and> user_email user_adminB = ''berta@b.es''
      \<and> user_id user_adminB \<noteq> ''u2''"
    by (simp add: example_defs)
  have f1: "f_email (no_user_fields\<lparr>f_email := Some ''berta@b.es''\<rparr>) = Some ''berta@b.es''"
    and ne1: "''berta@b.es'' \<noteq> []"
    by simp_all
  from updateUser_email_conflict [OF f1 ne1, of user_adminB db_demo "''u2''"] taken
  have conflict: "updateUser db_demo ''u2'' (no_user_fields\<lparr>f_email := Some ''berta@b.es''\<rparr>)
      = (Inl EmailInUseByOther, db_demo)"
    by blast
  have wf: "db_constraints db_demo"
    by (simp add: db_constraints_def restaurant_ids_def example_defs)
  have found: "findUserById db_demo ''u2'' = Some user_sellerB"
    by (simp add: example_defs user_query_defs)
  have same: "set_user_fields (no_user_fields\<lparr>f_email := Some ''saul@b.es''\<rparr>) user_sellerB
      = user_sellerB"
    by (simp add: set_user_fields_def example_defs)
  have f2: "f_email (no_user_fields\<lparr>f_email := Some ''saul@b.es''\<rparr>) = Some ''saul@b.es''"
    and ne2: "''saul@b.es'' \<noteq> []"
    and own: "user_email user_sellerB = ''saul@b.es''"
    and fk: "case f_restaurantId (no_user_fields\<lparr>f_email := Some ''saul@b.es''\<rparr>) of
        None \<Rightarrow> True | Some r \<Rightarrow> r \<in> set (restaurant_ids db_demo)"
    by (simp_all add: example_defs)
  from updateUser_email_conflict [OF f2 ne2, of _ db_demo "''u2''" user_sellerB] wf found own fk
  have "fst (updateUser db_demo ''u2'' (no_user_fields\<lparr>f_email := Some ''saul@b.es''\<rparr>))
      = Inr (Some (set_user_fields (no_user_fields\<lparr>f_email := Some ''saul@b.es''\<rparr>) user_sellerB))"
    by blast
  with same have ok: "fst (updateUser db_demo ''u2'' (no_user_fields\<lparr>f_email := Some ''saul@b.es''\<rparr>))
      = Inr (Some user_sellerB)"
    by simp
  from conflict wf found ok show ?thesis by blast
qed

text \<open>
  C10. \<open>updateUser\<close> on an existing user writes the fields that are supplied and keeps
  the others: whenever it succeeds, the row read back has each field from the call where
  the call has it and from the old row where not, and every other user is as before. A new
  \<^verbatim>\<open>restaurantId\<close> or \<^verbatim>\<open>role\<close> is taken like any other field: for every user and every
  identifier of a restaurant of the table, \<open>updateUser\<close> with that \<^verbatim>\<open>restaurantId\<close> alone
  succeeds and leaves the user in that restaurant, all else unchanged. \<open>updateProduct\<close>,
  whose fields have no \<^verbatim>\<open>restaurantId\<close>, leaves the restaurant of every product as it was.
\<close>

theorem updateUser_writes_supplied_fields:
  assumes "findUserById d i = Some u"
  shows "(updateUser d i f = (Inr res, d') \<longrightarrow>
        res = findUserById d' i
        \<and> map_option user_id res = Some i
        \<and> map_option user_name res = Some (case f_name f of None \<Rightarrow> user_name u | Some v \<Rightarrow> v)
        \<and> map_option user_email res = Some (case f_email f of None \<Rightarrow> user_email u | Some v \<Rightarrow> v)
        \<and> map_option user_password res
            = Some (case f_password f of None \<Rightarrow> user_password u | Some v \<Rightarrow> v)
        \<and> map_option user_role res = Some (case f_role f of None \<Rightarrow> user_role u | Some v \<Rightarrow> v)
        \<and> map_option user_restaurantId res
            = Some (case f_restaurantId f of None \<Rightarrow> user_restaurantId u | Some v \<Rightarrow> v)
        \<and> (\<forall>j. j \<noteq> i \<longrightarrow> findUserById d' j = findUserById d j)
        \<and> length (users d') = length (users d))
    \<and> (r \<in> set (restaurant_ids d) \<longrightarrow>
        fst (updateUser d i (no_user_fields\<lparr>f_restaurantId := Some r\<rparr>))
          = Inr (Some (u\<lparr>user_restaurantId := r\<rparr>))
        \<and> findUserById (snd (updateUser d i (no_user_fields\<lparr>f_restaurantId := Some r\<rparr>))) i
          = Some (u\<lparr>user_restaurantId := r\<rparr>))
    \<and> fst (updateUser d i (no_user_fields\<lparr>f_role := Some ro\<rparr>)) = Inr (Some (u\<lparr>user_role := ro\<rparr>))
    \<and> map product_restaurantId (products (snd (updateProduct d pid pf)))
        = map product_restaurantId (products d)"
proof (intro conjI impI)
  assume ok: "updateUser d i f = (Inr res, d')"
  note s = updateUser_success [OF assms ok]
  from s(2,3) show "res = findUserById d' i" by simp
  from s(2) findUserById_Some(2) [OF assms] show "map_option user_id res = Some i"
    by (simp add: user_id_set_user_fields)
  from s(2) show "map_option user_name res
      = Some (case f_name f of None \<Rightarrow> user_name u | Some v \<Rightarrow> v)"
    by (simp add: set_user_fields_def)
  from s(2) show "map_option user_email res
      = Some (case f_email f of None \<Rightarrow> user_email u | Some v \<Rightarrow> v)"
    by (simp add: set_user_fields_def)
  from s(2) show "map_option user_password res
      = Some (case f_password f of None \<Rightarrow> user_password u | Some v \<Rightarrow> v)"
    by (simp add: set_user_fields_def)
  from s(2) show "map_option user_role res
      = Some (case f_role f of None \<Rightarrow> user_role u | Some v \<Rightarrow> v)"
    by (simp add: set_user_fields_def)
  from s(2) show "map_option user_restaurantId res
      = Some (case f_restaurantId f of None \<Rightarrow> user_restaurantId u | Some v \<Rightarrow> v)"
    by (simp add: set_user_fields_def)
  from s(1) show "\<forall>j. j \<noteq> i \<longrightarrow> findUserById d' j = findUserById d j"
    by (simp add: findUserById_def find_other_row)
  from s(1) show "length (users d') = length (users d)"
    by simp
next
  assume r: "r \<in> set (restaurant_ids d)"
  let ?f = "no_user_fields\<lparr>f_restaurantId := Some r\<rparr>"
  have new: "set_user_fields ?f u = u\<lparr>user_restaurantId := r\<rparr>"
    by (simp add: set_user_fields_def no_user_fields_def)
  have "updateUser d i ?f =
    (Inr (Some (set_user_fields ?f u)),
     d\<lparr>users := map (\<lambda>x. if user_id x = i then set_user_fields ?f x else x) (users d)\<rparr>)"
    using r
    by (intro updateUser_runs [OF assms]) (simp_all add: no_user_fields_def user_fields_empty_def)
  with assms new show "fst (updateUser d i ?f) = Inr (Some (u\<lparr>user_restaurantId := r\<rparr>))"
    and "findUserById (snd (updateUser d i ?f)) i = Some (u\<lparr>user_restaurantId := r\<rparr>)"
    by (simp_all add: findUserById_def find_updated_row)
next
  let ?f = "no_user_fields\<lparr>f_role := Some ro\<rparr>"
  have new: "set_user_fields ?f u = u\<lparr>user_role := ro\<rparr>"
    by (simp add: set_user_fields_def no_user_fields_def)
  have "updateUser d i ?f =
    (Inr (Some (set_user_fields ?f u)),
     d\<lparr>users := map (\<lambda>x. if user_id x = i then set_user_fields ?f x else x) (users d)\<rparr>)"
    by (intro updateUser_runs [OF assms]) (simp_all add: no_user_fields_def user_fields_empty_def)
  with new show "fst (updateUser d i ?f) = Inr (Some (u\<lparr>user_role := ro\<rparr>))"
    by simp
next
  show "map product_restaurantId (products (snd (updateProduct d pid pf)))
      = map product_restaurantId (products d)"
    by (simp add: updateProduct_def Let_def set_product_fields_def comp_def if_distrib cong: if_cong)
qed

theorem updateUser_writes_supplied_fields_witness:
  "findUserById db_demo ''u2'' = Some user_sellerB
   \<and> ''rA'' \<in> set (restaurant_ids db_demo)
   \<and> fst (updateUser db_demo ''u2'' (no_user_fields\<lparr>f_restaurantId := Some ''rA''\<rparr>))
       = Inr (Some (user_sellerB\<lparr>user_restaurantId := ''rA''\<rparr>))
   \<and> map user_restaurantId
       (users (snd (updateUser db_demo ''u2'' (no_user_fields\<lparr>f_restaurantId := Some ''rA''\<rparr>))))
       = [''rA'', ''rB'', ''rA'', ''rA'', ''rC'']"
proof -
  have found: "findUserById db_demo ''u2'' = Some user_sellerB"
    and r: "''rA'' \<in> set (restaurant_ids db_demo)"
    by (simp_all add: example_defs user_query_defs)
  from updateUser_writes_supplied_fields [OF found, of _ _ _ "''rA''"] r
  have moved: "fst (updateUser db_demo ''u2'' (no_user_fields\<lparr>f_restaurantId := Some ''rA''\<rparr>))
      = Inr (Some (user_sellerB\<lparr>user_restaurantId := ''rA''\<rparr>))"
    by blast
  have rows: "map user_restaurantId
      (users (snd (updateUser db_demo ''u2'' (no_user_fields\<lparr>f_restaurantId := Some ''rA''\<rparr>))))
      = [''rA'', ''rB'', ''rA'', ''rA'', ''rC'']"
    by (simp add: updateUser_def update_user_rows_def user_fields_empty_def set_user_fields_def
        example_defs user_query_defs)
  from found r moved rows show ?thesis by blast
qed

end
